theory Spec2Isabelle
  imports Complex_Main "HOL-Library.Sublist" "HOL-Library.AList"
begin

section \<open>Go strings\<close>

text \<open>
  A Go string is a sequence of bytes; it is modelled as a \<^typ>\<open>string\<close> (a list of
  8-bit characters).  The functions of package \<open>strings\<close> used by the gateway are
  the library's list predicates.
\<close>

definition HasPrefix :: "string \<Rightarrow> string \<Rightarrow> bool" where
  "HasPrefix s p = prefix p s"

definition HasSuffix :: "string \<Rightarrow> string \<Rightarrow> bool" where
  "HasSuffix s p = suffix p s"

definition Contains :: "string \<Rightarrow> string \<Rightarrow> bool" where
  "Contains s substr = sublist substr s"

section \<open>pkg/config: the model catalog and the variant helpers\<close>

text \<open>
  The \<open>float64\<close> fields of \<open>Model\<close> only carry the literals of the catalog; they are
  kept as the rational value of the literal.
\<close>

record Model =
  Name :: string
  Version :: string
  DisplayName :: string
  Description :: string
  InputTokenLimit :: int
  OutputTokenLimit :: int
  SupportedGenerationMethods :: "string list"
  Temperature :: rat
  MaxTemperature :: rat
  TopP :: rat
  TopK :: int

definition mkBaseModel :: "string \<Rightarrow> string \<Rightarrow> string \<Rightarrow> int \<Rightarrow> int \<Rightarrow> Model" where
  "mkBaseModel n d descr inLimit outLimit =
     \<lparr> Name = n, Version = ''001'', DisplayName = d, Description = descr,
       InputTokenLimit = inLimit, OutputTokenLimit = outLimit,
       SupportedGenerationMethods = [''generateContent'', ''streamGenerateContent''],
       Temperature = 1, MaxTemperature = 2, TopP = 95 / 100, TopK = 64 \<rparr>"

definition getBaseModels :: "Model list" where
  "getBaseModels =
     [ mkBaseModel ''models/gemini-2.5-pro-preview-03-25'' ''Gemini 2.5 Pro Preview 03-25''
         ''Preview version of Gemini 2.5 Pro from May 6th'' 1048576 65535,
       mkBaseModel ''models/gemini-2.5-pro-preview-05-06'' ''Gemini 2.5 Pro Preview 05-06''
         ''Preview version of Gemini 2.5 Pro from May 6th'' 1048576 65535,
       mkBaseModel ''models/gemini-2.5-pro-preview-06-05'' ''Gemini 2.5 Pro Preview 06-05''
         ''Preview version of Gemini 2.5 Pro from June 5th'' 1048576 65535,
       mkBaseModel ''models/gemini-2.5-pro'' ''Gemini 2.5 Pro''
         ''Advanced multimodal model with enhanced capabilities'' 1048576 65535,
       mkBaseModel ''models/gemini-2.5-flash-preview-05-20'' ''Gemini 2.5 Flash Preview 05-20''
         ''Preview version of Gemini 2.5 Flash from May 20th'' 1048576 65535,
       mkBaseModel ''models/gemini-2.5-flash-preview-04-17'' ''Gemini 2.5 Flash Preview 04-17''
         ''Preview version of Gemini 2.5 Flash from April 17th'' 1048576 65535,
       mkBaseModel ''models/gemini-2.5-flash'' ''Gemini 2.5 Flash''
         ''Fast and efficient multimodal model with latest improvements'' 1048576 65535,
       mkBaseModel ''models/gemini-2.5-flash-image-preview'' ''Gemini 2.5 Flash Image Preview''
         ''Gemini 2.5 Flash Image Preview'' 32768 32768 ]"

text \<open>The helper \<open>contains(slice, item)\<close> of config.go: membership in a slice.\<close>

definition contains_item :: "string list \<Rightarrow> string \<Rightarrow> bool" where
  "contains_item slice item = (item \<in> set slice)"

definition variant :: "Model \<Rightarrow> string \<Rightarrow> string \<Rightarrow> string \<Rightarrow> Model" where
  "variant m nameSuffix displaySuffix descrSuffix =
     m\<lparr> Name := Name m @ nameSuffix,
        DisplayName := DisplayName m @ displaySuffix,
        Description := Description m @ descrSuffix \<rparr>"

definition searchVariants :: "Model \<Rightarrow> Model list" where
  "searchVariants m =
     (if \<not> Contains (Name m) ''gemini-2.5-flash-image''
         \<and> contains_item (SupportedGenerationMethods m) ''generateContent''
      then [variant m ''-search'' '' with Google Search'' '' (includes Google Search grounding)'']
      else [])"

definition thinkingVariants :: "Model \<Rightarrow> Model list" where
  "thinkingVariants m =
     (if \<not> Contains (Name m) ''gemini-2.5-flash-image''
         \<and> contains_item (SupportedGenerationMethods m) ''generateContent''
         \<and> (Contains (Name m) ''gemini-2.5-flash'' \<or> Contains (Name m) ''gemini-2.5-pro'')
      then [variant m ''-nothinking'' '' (No Thinking)'' '' (thinking disabled)'',
            variant m ''-maxthinking'' '' (Max Thinking)'' '' (maximum thinking budget)'']
      else [])"

definition combinedVariants :: "Model \<Rightarrow> Model list" where
  "combinedVariants m =
     (if contains_item (SupportedGenerationMethods m) ''generateContent''
         \<and> (Contains (Name m) ''gemini-2.5-flash'' \<or> Contains (Name m) ''gemini-2.5-pro'')
      then [variant m ''-search-nothinking'' '' with Google Search (No Thinking)''
              '' (includes Google Search grounding, thinking disabled)'',
            variant m ''-search-maxthinking'' '' with Google Search (Max Thinking)''
              '' (includes Google Search grounding, maximum thinking budget)'']
      else [])"

text \<open>
  \<open>generateSupportedModels\<close>: the base models, then one loop over the base models per
  kind of variant, each appending to \<open>allModels\<close>.
\<close>

definition generateSupportedModels :: "Model list" where
  "generateSupportedModels =
     getBaseModels
     @ concat (map searchVariants getBaseModels)
     @ concat (map thinkingVariants getBaseModels)
     @ concat (map combinedVariants getBaseModels)"

text \<open>
  \<open>GetBaseModelName\<close>: the loop over the three suffixes returns at the first suffix the
  name ends with, with that one suffix cut off.
\<close>

fun stripFirstSuffix :: "string list \<Rightarrow> string \<Rightarrow> string" where
  "stripFirstSuffix [] modelName = modelName"
| "stripFirstSuffix (sfx # sfxs) modelName =
     (if HasSuffix modelName sfx
      then take (length modelName - length sfx) modelName
      else stripFirstSuffix sfxs modelName)"

definition GetBaseModelName :: "string \<Rightarrow> string" where
  "GetBaseModelName modelName =
     stripFirstSuffix [''-maxthinking'', ''-nothinking'', ''-search''] modelName"

definition IsSearchModel :: "string \<Rightarrow> bool" where
  "IsSearchModel modelName = Contains modelName ''-search''"

definition IsNothinkingModel :: "string \<Rightarrow> bool" where
  "IsNothinkingModel modelName = Contains modelName ''-nothinking''"

definition IsMaxthinkingModel :: "string \<Rightarrow> bool" where
  "IsMaxthinkingModel modelName = Contains modelName ''-maxthinking''"

text \<open>
  \<open>GetThinkingBudget\<close>: a branch of the two inner \<open>if\<close> chains that matches neither
  family falls through to the final \<open>return -1\<close>.
\<close>

definition GetThinkingBudget :: "string \<Rightarrow> int" where
  "GetThinkingBudget modelName =
     (let baseModel = GetBaseModelName modelName in
      if IsNothinkingModel modelName then
        (if Contains baseModel ''gemini-2.5-flash'' then 0
         else if Contains baseModel ''gemini-2.5-pro'' then 128
         else - 1)
      else if IsMaxthinkingModel modelName then
        (if Contains baseModel ''gemini-2.5-flash'' then 24576
         else if Contains baseModel ''gemini-2.5-pro'' then 32768
         else - 1)
      else - 1)"

definition ShouldIncludeThoughts :: "string \<Rightarrow> bool" where
  "ShouldIncludeThoughts modelName =
     (if IsNothinkingModel modelName
      then Contains (GetBaseModelName modelName) ''gemini-2.5-pro''
      else True)"

section \<open>Dynamically typed Go values\<close>

text \<open>
  The translation works on \<open>interface{}\<close> values and \<open>map[string]interface{}\<close>
  payloads.  A value carries its dynamic type, which the code inspects with type
  assertions and type switches; the constructors are the dynamic types that occur:
  \<open>nil\<close>, \<open>bool\<close>, \<open>int\<close>, \<open>float64\<close> (what \<open>encoding/json\<close> decodes a number to;
  kept as the rational it denotes, no arithmetic is done on it), \<open>string\<close>,
  \<open>[]string\<close>, \<open>[]interface{}\<close> (what \<open>encoding/json\<close> decodes an array to),
  \<open>map[string]interface{}\<close> and \<open>[]map[string]interface{}\<close>.
  A map is an association list with at most one entry per key; \<open>map_of\<close> reads it
  and \<open>AList.update\<close> assigns to a key.
\<close>

datatype goval =
    GNil
  | GBool bool
  | GInt int
  | GFloat64 rat
  | GString string
  | GStrings "string list"
  | GSlice "goval list"
  | GMap "(string \<times> goval) list"
  | GMaps "(string \<times> goval) list list"

type_synonym gomap = "(string \<times> goval) list"

text \<open>\<open>m[k]\<close> read as a value: \<open>nil\<close> when the key is absent.\<close>

definition getv :: "gomap \<Rightarrow> string \<Rightarrow> goval" where
  "getv m k = (case map_of m k of Some v \<Rightarrow> v | None \<Rightarrow> GNil)"

section \<open>Library functions used by pkg/transformers\<close>

text \<open>Go's slice expression \<open>s[a:b]\<close>, for \<open>a \<le> b \<le> len(s)\<close>.\<close>

definition slice :: "string \<Rightarrow> nat \<Rightarrow> nat \<Rightarrow> string" where
  "slice s a b = take (b - a) (drop a s)"

text \<open>\<open>strings.SplitN(s, sep, 2)\<close> for a separator of one byte.\<close>

definition SplitN2 :: "string \<Rightarrow> char \<Rightarrow> string list" where
  "SplitN2 s sep =
     (if sep \<in> set s
      then [takeWhile (\<lambda>c. c \<noteq> sep) s, tl (dropWhile (\<lambda>c. c \<noteq> sep) s)]
      else [s])"

text \<open>
  \<open>strings.TrimSpace\<close> removes leading and trailing white space as \<open>unicode.IsSpace\<close>
  defines it.  On the bytes of the string these are the UTF-8 encodings of
  U+0009..U+000D, U+0020, U+0085, U+00A0, U+1680, U+2000..U+200A, U+2028, U+2029,
  U+202F, U+205F and U+3000.
\<close>

definition spaceRunes :: "string list" where
  "spaceRunes =
     [ [CHR 0x09], [CHR 0x0A], [CHR 0x0B], [CHR 0x0C], [CHR 0x0D], [CHR 0x20],
       [CHR 0xC2, CHR 0x85], [CHR 0xC2, CHR 0xA0],
       [CHR 0xE1, CHR 0x9A, CHR 0x80],
       [CHR 0xE2, CHR 0x80, CHR 0x80], [CHR 0xE2, CHR 0x80, CHR 0x81],
       [CHR 0xE2, CHR 0x80, CHR 0x82], [CHR 0xE2, CHR 0x80, CHR 0x83],
       [CHR 0xE2, CHR 0x80, CHR 0x84], [CHR 0xE2, CHR 0x80, CHR 0x85],
       [CHR 0xE2, CHR 0x80, CHR 0x86], [CHR 0xE2, CHR 0x80, CHR 0x87],
       [CHR 0xE2, CHR 0x80, CHR 0x88], [CHR 0xE2, CHR 0x80, CHR 0x89],
       [CHR 0xE2, CHR 0x80, CHR 0x8A],
       [CHR 0xE2, CHR 0x80, CHR 0xA8], [CHR 0xE2, CHR 0x80, CHR 0xA9],
       [CHR 0xE2, CHR 0x80, CHR 0xAF], [CHR 0xE2, CHR 0x81, CHR 0x9F],
       [CHR 0xE3, CHR 0x80, CHR 0x80] ]"

text \<open>The length of the white-space rune the string starts with; 0 when there is none.\<close>

definition leadingSpace :: "string \<Rightarrow> nat" where
  "leadingSpace s = (case find (\<lambda>r. prefix r s) spaceRunes of None \<Rightarrow> 0 | Some r \<Rightarrow> length r)"

function trimLeftSpace :: "string \<Rightarrow> string" where
  "trimLeftSpace s =
     (if 0 < leadingSpace s \<and> leadingSpace s \<le> length s
      then trimLeftSpace (drop (leadingSpace s) s) else s)"
  by pat_completeness auto
termination
  by (relation "measure length") auto

text \<open>The length of the white-space rune the string ends with; 0 when there is none.\<close>

definition trailingSpace :: "string \<Rightarrow> nat" where
  "trailingSpace s = (case find (\<lambda>r. suffix r s) spaceRunes of None \<Rightarrow> 0 | Some r \<Rightarrow> length r)"

function trimRightSpace :: "string \<Rightarrow> string" where
  "trimRightSpace s =
     (if 0 < trailingSpace s \<and> trailingSpace s \<le> length s
      then trimRightSpace (take (length s - trailingSpace s) s) else s)"
  by pat_completeness auto
termination
  by (relation "measure length") auto

definition TrimSpace :: "string \<Rightarrow> string" where
  "TrimSpace s = trimRightSpace (trimLeftSpace s)"

text \<open>\<open>strings.Trim(s, cutset)\<close> for a cutset of ASCII bytes.\<close>

definition Trim :: "string \<Rightarrow> string \<Rightarrow> string" where
  "Trim s cutset =
     rev (dropWhile (\<lambda>c. c \<in> set cutset) (rev (dropWhile (\<lambda>c. c \<in> set cutset) s)))"

text \<open>
  \<open>base64.StdEncoding.DecodeString(data)\<close> returns no error exactly when the input,
  with every \<open>\r\<close> and \<open>\n\<close> dropped, is a sequence of groups of four characters of
  the alphabet \<open>A-Z a-z 0-9 + /\<close>, where the last group may end in \<open>=\<close> or \<open>==\<close>
  (the standard encoding is not strict about the unused bits of a padded group).
\<close>

definition isBase64Char :: "char \<Rightarrow> bool" where
  "isBase64Char c =
     (let n = (of_char c :: nat) in
      (65 \<le> n \<and> n \<le> 90) \<or> (97 \<le> n \<and> n \<le> 122) \<or> (48 \<le> n \<and> n \<le> 57)
      \<or> c = CHR ''+'' \<or> c = CHR ''/'')"

fun base64Groups :: "string \<Rightarrow> bool" where
  "base64Groups [] = True"
| "base64Groups [a, b, c, d] =
     (isBase64Char a \<and> isBase64Char b
      \<and> ((c = CHR ''='' \<and> d = CHR ''='') \<or> (isBase64Char c \<and> (d = CHR ''='' \<or> isBase64Char d))))"
| "base64Groups (a # b # c # d # rest) =
     (isBase64Char a \<and> isBase64Char b \<and> isBase64Char c \<and> isBase64Char d \<and> base64Groups rest)"
| "base64Groups _ = False"

definition base64Decodes :: "string \<Rightarrow> bool" where
  "base64Decodes data = base64Groups (filter (\<lambda>c. c \<noteq> CHR 0x0D \<and> c \<noteq> CHR 0x0A) data)"

text \<open>
  The regular expression \<open>!\[[^\]]*\]\(([^)]+)\)\<close> against the start of a string.
  After \<open>![\<close> the class \<open>[^\]]*\<close> can only end at the first \<open>]\<close>, which must be
  followed by \<open>(\<close>; the group \<open>[^)]+\<close> can only end at the first \<open>)\<close> and must not
  be empty.  So a match at a position is unique; \<open>matchAt\<close> returns its length and the
  offsets of the group.  The delimiters are ASCII, so matching bytes and matching runes
  agree.
\<close>

definition matchAt :: "string \<Rightarrow> (nat \<times> nat \<times> nat) option" where
  "matchAt s =
     (if prefix ''!['' s then
        (let r = drop 2 s;
             alt = takeWhile (\<lambda>c. c \<noteq> CHR '']'') r;
             r2 = dropWhile (\<lambda>c. c \<noteq> CHR '']'') r in
         if prefix '']('' r2 then
           (let r3 = drop 2 r2;
                url = takeWhile (\<lambda>c. c \<noteq> CHR '')'') r3;
                r4 = dropWhile (\<lambda>c. c \<noteq> CHR '')'') r3 in
            if url \<noteq> [] \<and> r4 \<noteq> []
            then Some (length alt + length url + 5, length alt + 4, length alt + 4 + length url)
            else None)
         else None)
      else None)"

text \<open>
  \<open>FindAllStringSubmatchIndex(text, -1)\<close>: the leftmost match, then the leftmost match
  that starts at or after its end, and so on.  Each match is
  \<open>(match[0], match[1], match[2], match[3])\<close>.
\<close>

function findAllFrom :: "string \<Rightarrow> nat \<Rightarrow> (nat \<times> nat \<times> nat \<times> nat) list" where
  "findAllFrom text i =
     (if length text \<le> i then []
      else (case matchAt (drop i text) of
              None \<Rightarrow> findAllFrom text (Suc i)
            | Some (n, g0, g1) \<Rightarrow> (i, i + n, i + g0, i + g1) # findAllFrom text (i + n)))"
  by pat_completeness auto
termination
  by (relation "measure (\<lambda>(text, i). length text - i)")
     (auto simp: matchAt_def Let_def split: if_splits)

definition FindAllStringSubmatchIndex :: "string \<Rightarrow> (nat \<times> nat \<times> nat \<times> nat) list" where
  "FindAllStringSubmatchIndex text = findAllFrom text 0"

section \<open>pkg/transformers: content decomposition\<close>

text \<open>The two shapes of a remote part, as the map literals of the source build them.\<close>

definition textPart :: "string \<Rightarrow> gomap" where
  "textPart t = [(''text'', GString t)]"

definition inlineDataPart :: "string \<Rightarrow> string \<Rightarrow> gomap" where
  "inlineDataPart mimeType data =
     [(''inlineData'', GMap [(''mimeType'', GString mimeType), (''data'', GString data)])]"

text \<open>\<open>processImageURL\<close>: \<open>None\<close> is the result \<open>(nil, false)\<close>.\<close>

definition processImageURL :: "string \<Rightarrow> gomap option" where
  "processImageURL url =
     (if \<not> HasPrefix url ''data:'' then None
      else (case SplitN2 url (CHR '','') of
              [header, data] \<Rightarrow>
                (let mimeType =
                       (if Contains header '':'' then
                          (case SplitN2 header (CHR '':'') of
                             [scheme, mimeTypeWithParams] \<Rightarrow>
                               (if Contains mimeTypeWithParams '';''
                                then hd (SplitN2 mimeTypeWithParams (CHR '';''))
                                else mimeTypeWithParams)
                           | _ \<Rightarrow> ''image/png'')
                        else ''image/png'')
                 in if \<not> base64Decodes data then None
                    else Some (inlineDataPart mimeType data))
            | _ \<Rightarrow> None))"

text \<open>The URL of a match as the loop cleans it before \<open>processImageURL\<close>.\<close>

definition cleanURL :: "string \<Rightarrow> string" where
  "cleanURL url = Trim (Trim (TrimSpace url) [CHR 0x22, CHR 0x27]) [CHR 0x27]"

text \<open>
  The three blocks of \<open>processTextContent\<close> that append to \<open>parts\<close>: the text between
  \<open>lastIdx\<close> and the start of a match, the part for the match itself (the inline data
  of its URL, or the matched text when \<open>processImageURL\<close> fails), and the text after
  the last match.
\<close>

definition textBefore :: "string \<Rightarrow> nat \<Rightarrow> nat \<Rightarrow> gomap list" where
  "textBefore text lastIdx m0 =
     (if lastIdx < m0 \<and> slice text lastIdx m0 \<noteq> []
      then [textPart (slice text lastIdx m0)] else [])"

definition matchPart :: "string \<Rightarrow> nat \<times> nat \<times> nat \<times> nat \<Rightarrow> gomap" where
  "matchPart text m =
     (case m of (m0, m1, m2, m3) \<Rightarrow>
        (case processImageURL (cleanURL (slice text m2 m3)) of
           Some part \<Rightarrow> part
         | None \<Rightarrow> textPart (slice text m0 m1)))"

definition textAfter :: "string \<Rightarrow> nat \<Rightarrow> gomap list" where
  "textAfter text lastIdx =
     (if lastIdx < length text \<and> drop lastIdx text \<noteq> []
      then [textPart (drop lastIdx text)] else [])"

text \<open>The loop over the matches; its state is \<open>parts\<close> and \<open>lastIdx\<close>.\<close>

fun matchLoop ::
  "string \<Rightarrow> (nat \<times> nat \<times> nat \<times> nat) list \<Rightarrow> gomap list \<Rightarrow> nat \<Rightarrow> gomap list \<times> nat" where
  "matchLoop text [] parts lastIdx = (parts, lastIdx)"
| "matchLoop text ((m0, m1, m2, m3) # matches) parts lastIdx =
     matchLoop text matches
       (parts @ textBefore text lastIdx m0 @ [matchPart text (m0, m1, m2, m3)]) m1"

definition processTextContent :: "string \<Rightarrow> gomap list" where
  "processTextContent text =
     (if text = [] then [textPart []]
      else
        (let matches = FindAllStringSubmatchIndex text in
         if matches = [] then [textPart text]
         else
           (let (parts, lastIdx) = matchLoop text matches [] 0;
                parts' = parts @ textAfter text lastIdx
            in if parts' = [] then [textPart text] else parts')))"

text \<open>What one item of the content array appends to \<open>parts\<close>.\<close>

definition arrayItemParts :: "goval \<Rightarrow> gomap list" where
  "arrayItemParts item =
     (case item of
        GMap partMap \<Rightarrow>
          (case map_of partMap ''type'' of
             Some (GString partType) \<Rightarrow>
               (if partType = ''text'' then
                  (case map_of partMap ''text'' of
                     Some (GString text) \<Rightarrow> processTextContent text
                   | _ \<Rightarrow> [])
                else if partType = ''image_url'' then
                  (case map_of partMap ''image_url'' of
                     Some (GMap imageURL) \<Rightarrow>
                       (case map_of imageURL ''url'' of
                          Some (GString url) \<Rightarrow>
                            (case processImageURL url of Some part \<Rightarrow> [part] | None \<Rightarrow> [])
                        | _ \<Rightarrow> [])
                   | _ \<Rightarrow> [])
                else [])
           | _ \<Rightarrow> [])
      | _ \<Rightarrow> [])"

definition processArrayContent :: "goval list \<Rightarrow> gomap list" where
  "processArrayContent contentArray =
     (let parts = concat (map arrayItemParts contentArray)
      in if parts = [] then [textPart []] else parts)"

text \<open>Errors and panics are values.\<close>

datatype failure =
    UnsupportedContentType goval
  | PanicInterfaceConversion string

definition processContent :: "goval \<Rightarrow> failure + gomap list" where
  "processContent content =
     (case content of
        GString s \<Rightarrow> Inr (processTextContent s)
      | GSlice xs \<Rightarrow> Inr (processArrayContent xs)
      | _ \<Rightarrow> Inl (UnsupportedContentType content))"

definition mapFinishReason :: "goval \<Rightarrow> string option" where
  "mapFinishReason reason =
     (case reason of
        GString reasonStr \<Rightarrow>
          (if reasonStr = ''STOP'' then Some ''stop''
           else if reasonStr = ''MAX_TOKENS'' then Some ''length''
           else if reasonStr = ''SAFETY'' \<or> reasonStr = ''RECITATION'' then Some ''content_filter''
           else None)
      | _ \<Rightarrow> None)"

definition getDefaultSafetySettings :: "gomap list" where
  "getDefaultSafetySettings =
     [ [(''category'', GString ''HARM_CATEGORY_HARASSMENT''), (''threshold'', GString ''BLOCK_NONE'')],
       [(''category'', GString ''HARM_CATEGORY_HATE_SPEECH''), (''threshold'', GString ''BLOCK_NONE'')],
       [(''category'', GString ''HARM_CATEGORY_SEXUALLY_EXPLICIT''), (''threshold'', GString ''BLOCK_NONE'')],
       [(''category'', GString ''HARM_CATEGORY_DANGEROUS_CONTENT''), (''threshold'', GString ''BLOCK_NONE'')],
       [(''category'', GString ''HARM_CATEGORY_CIVIC_INTEGRITY''), (''threshold'', GString ''BLOCK_NONE'')],
       [(''category'', GString ''HARM_CATEGORY_IMAGE_DANGEROUS_CONTENT''), (''threshold'', GString ''BLOCK_NONE'')],
       [(''category'', GString ''HARM_CATEGORY_IMAGE_HARASSMENT''), (''threshold'', GString ''BLOCK_NONE'')],
       [(''category'', GString ''HARM_CATEGORY_IMAGE_HATE''), (''threshold'', GString ''BLOCK_NONE'')],
       [(''category'', GString ''HARM_CATEGORY_IMAGE_SEXUALLY_EXPLICIT''), (''threshold'', GString ''BLOCK_NONE'')],
       [(''category'', GString ''HARM_CATEGORY_UNSPECIFIED''), (''threshold'', GString ''BLOCK_NONE'')] ]"

section \<open>pkg/transformers: the chat-completion request\<close>

text \<open>
  The request as \<open>encoding/json\<close> binds it.  A pointer field is an option; \<open>Content\<close> and
  \<open>Stop\<close> are \<open>interface{}\<close> values; \<open>ResponseFormat\<close> is a map that may be \<open>nil\<close>.
  The fields \<open>Model\<close>, \<open>Temperature\<close> and \<open>TopP\<close> of the request are written
  \<open>reqModel\<close>, \<open>reqTemperature\<close> and \<open>reqTopP\<close> here, the catalog's record having
  fields of the same names.
\<close>

record OpenAIChatMessage =
  Role :: string
  Content :: goval
  ReasoningContent :: "string option"

record OpenAIChatCompletionRequest =
  reqModel :: string
  Messages :: "OpenAIChatMessage list"
  Stream :: bool
  reqTemperature :: "rat option"
  reqTopP :: "rat option"
  MaxTokens :: "int option"
  Stop :: goval
  FrequencyPenalty :: "rat option"
  PresencePenalty :: "rat option"
  N :: "int option"
  Seed :: "int option"
  ResponseFormat :: "gomap option"

definition mapRole :: "string \<Rightarrow> string" where
  "mapRole role = (if role = ''assistant'' then ''model'' else if role = ''system'' then ''user'' else role)"

text \<open>The loop over the messages: the first content that fails ends the translation.\<close>

fun messagesToContents :: "OpenAIChatMessage list \<Rightarrow> failure + gomap list" where
  "messagesToContents [] = Inr []"
| "messagesToContents (message # rest) =
     (case processContent (Content message) of
        Inl err \<Rightarrow> Inl err
      | Inr parts \<Rightarrow>
          (case messagesToContents rest of
             Inl err \<Rightarrow> Inl err
           | Inr contents \<Rightarrow>
               Inr ([(''role'', GString (mapRole (Role message))), (''parts'', GMaps parts)] # contents)))"

text \<open>An assignment \<open>generationConfig[k] = *p\<close> guarded by \<open>p != nil\<close>.\<close>

definition setOpt :: "string \<Rightarrow> ('a \<Rightarrow> goval) \<Rightarrow> 'a option \<Rightarrow> gomap \<Rightarrow> gomap" where
  "setOpt k wrap p m = (case p of None \<Rightarrow> m | Some v \<Rightarrow> AList.update k (wrap v) m)"

text \<open>The type switch on \<open>Stop\<close>: a \<open>string\<close>, a \<open>[]string\<close>, or nothing.\<close>

definition setStop :: "goval \<Rightarrow> gomap \<Rightarrow> gomap" where
  "setStop stop m =
     (case stop of
        GString s \<Rightarrow> AList.update ''stopSequences'' (GStrings [s]) m
      | GStrings ss \<Rightarrow> AList.update ''stopSequences'' (GStrings ss) m
      | _ \<Rightarrow> m)"

definition setResponseFormat :: "gomap option \<Rightarrow> gomap \<Rightarrow> gomap" where
  "setResponseFormat rf m =
     (case rf of
        None \<Rightarrow> m
      | Some f \<Rightarrow>
          (case map_of f ''type'' of
             Some (GString formatType) \<Rightarrow>
               (if formatType = ''json_object''
                then AList.update ''responseMimeType'' (GString ''application/json'') m else m)
           | _ \<Rightarrow> m))"

definition buildGenerationConfig :: "OpenAIChatCompletionRequest \<Rightarrow> gomap" where
  "buildGenerationConfig r =
     (let g0 = [];
          g1 = setOpt ''temperature'' GFloat64 (reqTemperature r) g0;
          g2 = setOpt ''topP'' GFloat64 (reqTopP r) g1;
          g3 = setOpt ''maxOutputTokens'' GInt (MaxTokens r) g2;
          g4 = setStop (Stop r) g3;
          g5 = setOpt ''frequencyPenalty'' GFloat64 (FrequencyPenalty r) g4;
          g6 = setOpt ''presencePenalty'' GFloat64 (PresencePenalty r) g5;
          g7 = setOpt ''candidateCount'' GInt (N r) g6;
          g8 = setOpt ''seed'' GInt (Seed r) g7
      in setResponseFormat (ResponseFormat r) g8)"

text \<open>
  The thinking configuration of the OpenAI path.  The test
  \<open>generationConfig["thinkingConfig"] == nil\<close> holds for an absent key and for a key
  bound to \<open>nil\<close>; the type assertion that follows panics on any other value that is
  not a map.
\<close>

definition addThinkingConfig :: "string \<Rightarrow> gomap \<Rightarrow> failure + gomap" where
  "addThinkingConfig model generationConfig =
     (if \<not> Contains model ''gemini-2.5-flash-image'' then
        (let thinkingBudget = GetThinkingBudget model in
         if thinkingBudget \<noteq> - 1 then
           (let gc = (if getv generationConfig ''thinkingConfig'' = GNil
                      then AList.update ''thinkingConfig'' (GMap []) generationConfig
                      else generationConfig)
            in case getv gc ''thinkingConfig'' of
                 GMap thinkingConfig \<Rightarrow>
                   Inr (AList.update ''thinkingConfig''
                          (GMap (AList.update ''includeThoughts'' (GBool (ShouldIncludeThoughts model))
                                  (AList.update ''thinkingBudget'' (GInt thinkingBudget) thinkingConfig)))
                          gc)
               | _ \<Rightarrow> Inl (PanicInterfaceConversion ''thinkingConfig''))
         else Inr generationConfig)
      else Inr generationConfig)"

text \<open>
  \<open>OpenAIRequestToGemini\<close>.  The source stores the map \<open>generationConfig\<close> in the payload
  and adds the thinking configuration to it afterwards; the payload refers to the same
  map, so the payload built here holds the final \<open>generationConfig\<close>.
\<close>

definition OpenAIRequestToGemini :: "OpenAIChatCompletionRequest \<Rightarrow> failure + gomap" where
  "OpenAIRequestToGemini openaiRequest =
     (case messagesToContents (Messages openaiRequest) of
        Inl err \<Rightarrow> Inl err
      | Inr contents \<Rightarrow>
          (case addThinkingConfig (reqModel openaiRequest) (buildGenerationConfig openaiRequest) of
             Inl err \<Rightarrow> Inl err
           | Inr generationConfig \<Rightarrow>
               (let requestPayload =
                      [ (''contents'', GMaps contents),
                        (''generationConfig'', GMap generationConfig),
                        (''safetySettings'', GMaps getDefaultSafetySettings),
                        (''model'', GString (GetBaseModelName (reqModel openaiRequest))) ]
                in Inr (if IsSearchModel (reqModel openaiRequest)
                        then AList.update ''tools'' (GMaps [[(''googleSearch'', GMap [])]]) requestPayload
                        else requestPayload))))"

section \<open>pkg/config: the configuration\<close>

text \<open>
  \<open>getDefaultSafetySettings\<close> of package \<open>config\<close> (the package \<open>transformers\<close> has a
  function of the same name, above).
\<close>

definition config_getDefaultSafetySettings :: "gomap list" where
  "config_getDefaultSafetySettings =
     [ [(''category'', GString ''HARM_CATEGORY_HARASSMENT''), (''threshold'', GString ''BLOCK_NONE'')],
       [(''category'', GString ''HARM_CATEGORY_HATE_SPEECH''), (''threshold'', GString ''BLOCK_NONE'')],
       [(''category'', GString ''HARM_CATEGORY_SEXUALLY_EXPLICIT''), (''threshold'', GString ''BLOCK_NONE'')],
       [(''category'', GString ''HARM_CATEGORY_DANGEROUS_CONTENT''), (''threshold'', GString ''BLOCK_NONE'')],
       [(''category'', GString ''HARM_CATEGORY_CIVIC_INTEGRITY''), (''threshold'', GString ''BLOCK_NONE'')],
       [(''category'', GString ''HARM_CATEGORY_IMAGE_DANGEROUS_CONTENT''), (''threshold'', GString ''BLOCK_NONE'')],
       [(''category'', GString ''HARM_CATEGORY_IMAGE_HARASSMENT''), (''threshold'', GString ''BLOCK_NONE'')],
       [(''category'', GString ''HARM_CATEGORY_IMAGE_HATE''), (''threshold'', GString ''BLOCK_NONE'')],
       [(''category'', GString ''HARM_CATEGORY_IMAGE_SEXUALLY_EXPLICIT''), (''threshold'', GString ''BLOCK_NONE'')],
       [(''category'', GString ''HARM_CATEGORY_UNSPECIFIED''), (''threshold'', GString ''BLOCK_NONE'')] ]"

record Config =
  CredentialFile :: string
  GeminiAuthPassword :: string
  CodeAssistEndpoint :: string
  CLIVersion :: string
  ClientID :: string
  ClientSecret :: string
  Scopes :: "string list"
  SafetySettings :: "gomap list"
  SupportedModels :: "Model list"

definition getEnvOrDefault :: "(string \<Rightarrow> string) \<Rightarrow> string \<Rightarrow> string \<Rightarrow> string" where
  "getEnvOrDefault getenv key defaultValue =
     (if getenv key \<noteq> [] then getenv key else defaultValue)"

text \<open>
  \<open>NewConfig\<close>, given the process environment (\<open>os.Getenv\<close>) and the working directory
  (\<open>os.Getwd\<close>).
\<close>

definition NewConfig :: "(string \<Rightarrow> string) \<Rightarrow> string \<Rightarrow> Config" where
  "NewConfig getenv scriptDir =
     (let credFile = (if getenv ''GOOGLE_APPLICATION_CREDENTIALS'' = []
                      then ''oauth_creds.json''
                      else getenv ''GOOGLE_APPLICATION_CREDENTIALS'')
      in \<lparr> CredentialFile = scriptDir @ ''/'' @ credFile,
           GeminiAuthPassword = getEnvOrDefault getenv ''GEMINI_AUTH_PASSWORD'' ''123456'',
           CodeAssistEndpoint = ''https://cloudcode-pa.googleapis.com'',
           CLIVersion = ''0.1.5'',
           ClientID = getenv ''GOOGLE_CLIENT_ID'',
           ClientSecret = getenv ''GOOGLE_CLIENT_SECRET'',
           Scopes = [ ''https://www.googleapis.com/auth/cloud-platform'',
                      ''https://www.googleapis.com/auth/userinfo.email'',
                      ''https://www.googleapis.com/auth/userinfo.profile'' ],
           SafetySettings = config_getDefaultSafetySettings,
           SupportedModels = generateSupportedModels \<rparr>)"

section \<open>pkg/google: the payload builders\<close>

text \<open>The map \<open>requestData\<close> of \<open>BuildGeminiPayloadFromOpenAI\<close>, before the \<open>nil\<close> values
  are removed.\<close>

definition openaiRequestData :: "Config \<Rightarrow> gomap \<Rightarrow> gomap" where
  "openaiRequestData cfg openaiPayload =
     (let safetySettings =
            (case map_of openaiPayload ''safetySettings'' of
               Some (GMaps ssSlice) \<Rightarrow> ssSlice
             | _ \<Rightarrow> SafetySettings cfg)
      in [ (''contents'', getv openaiPayload ''contents''),
           (''systemInstruction'', getv openaiPayload ''systemInstruction''),
           (''cachedContent'', getv openaiPayload ''cachedContent''),
           (''tools'', getv openaiPayload ''tools''),
           (''toolConfig'', getv openaiPayload ''toolConfig''),
           (''safetySettings'', GMaps safetySettings),
           (''generationConfig'', getv openaiPayload ''generationConfig'') ])"

definition BuildGeminiPayloadFromOpenAI :: "Config \<Rightarrow> gomap \<Rightarrow> gomap" where
  "BuildGeminiPayloadFromOpenAI cfg openaiPayload =
     (let model = getv openaiPayload ''model'';
          requestData = openaiRequestData cfg openaiPayload;
          cleanRequestData = filter (\<lambda>(k, v). v \<noteq> GNil) requestData
      in [(''model'', model), (''request'', GMap cleanRequestData)])"

text \<open>
  The thinking entries the native path writes into \<open>thinkingConfig\<close>, for a model that
  is not the image model.
\<close>

definition nativeThinking :: "string \<Rightarrow> gomap \<Rightarrow> gomap" where
  "nativeThinking modelFromPath thinkingConfig =
     (let thinkingBudget = GetThinkingBudget modelFromPath;
          includeThoughts = ShouldIncludeThoughts modelFromPath;
          tc = AList.update ''includeThoughts'' (GBool includeThoughts) thinkingConfig
      in if map_of tc ''thinkingBudget'' = None \<or> thinkingBudget \<noteq> - 1
         then AList.update ''thinkingBudget'' (GInt thinkingBudget) tc
         else tc)"

definition isGoogleSearchTool :: "goval \<Rightarrow> bool" where
  "isGoogleSearchTool tool =
     (case tool of GMap toolMap \<Rightarrow> map_of toolMap ''googleSearch'' \<noteq> None | _ \<Rightarrow> False)"

text \<open>The search-grounding step of the native path; a \<open>tools\<close> value that is not a
  \<open>[]interface{}\<close> makes the type assertion panic.\<close>

definition nativeSearchTools :: "string \<Rightarrow> gomap \<Rightarrow> failure + gomap" where
  "nativeSearchTools modelFromPath request =
     (if IsSearchModel modelFromPath then
        (let request1 = (if map_of request ''tools'' = None
                         then AList.update ''tools'' (GSlice []) request else request)
         in case getv request1 ''tools'' of
              GSlice tools \<Rightarrow>
                Inr (if \<not> list_ex isGoogleSearchTool tools
                     then AList.update ''tools''
                            (GSlice (tools @ [GMap [(''googleSearch'', GMap [])]])) request1
                     else request1)
            | _ \<Rightarrow> Inl (PanicInterfaceConversion ''tools''))
      else Inr request)"

text \<open>
  \<open>BuildGeminiPayloadFromNative\<close>.  \<open>genConfig\<close> and \<open>thinkingConfig\<close> are the maps
  stored in \<open>request\<close>, so the assignments to them show in \<open>request\<close>; here the updated
  maps are stored back.  A \<open>generationConfig\<close> or \<open>thinkingConfig\<close> that is present and
  not a map makes the unchecked type assertion panic.
\<close>

definition BuildGeminiPayloadFromNative :: "Config \<Rightarrow> gomap \<Rightarrow> string \<Rightarrow> failure + gomap" where
  "BuildGeminiPayloadFromNative cfg nativeRequest modelFromPath =
     (let request0 = AList.update ''safetySettings'' (GMaps (SafetySettings cfg)) nativeRequest;
          request1 = (if map_of request0 ''generationConfig'' = None
                      then AList.update ''generationConfig'' (GMap []) request0 else request0)
      in case getv request1 ''generationConfig'' of
           GMap genConfig0 \<Rightarrow>
             (let genConfig1 = (if map_of genConfig0 ''thinkingConfig'' = None
                                then AList.update ''thinkingConfig'' (GMap []) genConfig0
                                else genConfig0)
              in case getv genConfig1 ''thinkingConfig'' of
                   GMap thinkingConfig0 \<Rightarrow>
                     (let thinkingConfig1 =
                            (if \<not> Contains modelFromPath ''gemini-2.5-flash-image''
                             then nativeThinking modelFromPath thinkingConfig0
                             else thinkingConfig0);
                          genConfig2 = AList.update ''thinkingConfig'' (GMap thinkingConfig1) genConfig1;
                          request2 = AList.update ''generationConfig'' (GMap genConfig2) request1
                      in case nativeSearchTools modelFromPath request2 of
                           Inl err \<Rightarrow> Inl err
                         | Inr request3 \<Rightarrow>
                             Inr [ (''model'', GString (GetBaseModelName modelFromPath)),
                                   (''request'', GMap request3) ])
                 | _ \<Rightarrow> Inl (PanicInterfaceConversion ''thinkingConfig''))
         | _ \<Rightarrow> Inl (PanicInterfaceConversion ''generationConfig''))"

section \<open>pkg/google: the streaming relay\<close>

text \<open>
  \<open>encoding/json\<close> is a parameter of the relay.  \<open>unmarshal\<close> is \<open>json.Unmarshal\<close> into
  a \<open>nil\<close> \<open>map[string]interface{}\<close>: \<open>Inl\<close> is an error, \<open>Inr None\<close> is success that
  leaves the map \<open>nil\<close> (the document \<open>null\<close>), \<open>Inr (Some m)\<close> is an object.
  \<open>marshal\<close> is \<open>json.Marshal\<close>, \<open>None\<close> its error.
\<close>

type_synonym json_unmarshal = "string \<Rightarrow> string + gomap option"
type_synonym json_marshal = "goval \<Rightarrow> string option"

definition parseChunk :: "json_unmarshal \<Rightarrow> string \<Rightarrow> gomap option" where
  "parseChunk unmarshal chunk = (case unmarshal chunk of Inl err \<Rightarrow> None | Inr obj \<Rightarrow> obj)"

definition sseFrame :: "string \<Rightarrow> string" where
  "sseFrame js = ''data: '' @ js @ [CHR 0x0A, CHR 0x0A]"

text \<open>What the body of the scan loop sends to the channel for one line.\<close>

definition lineFrame :: "json_unmarshal \<Rightarrow> json_marshal \<Rightarrow> string \<Rightarrow> string option" where
  "lineFrame unmarshal marshal line =
     (if HasPrefix line ''data: '' then
        (let data = drop 6 line in
         if data \<noteq> [] \<and> data \<noteq> ''[DONE]'' then
           (case parseChunk unmarshal data of
              None \<Rightarrow> None
            | Some obj \<Rightarrow>
                (case map_of obj ''response'' of
                   Some (GMap response) \<Rightarrow> map_option sseFrame (marshal (GMap response))
                 | _ \<Rightarrow> map_option sseFrame (marshal (GMap obj))))
         else None)
      else None)"

definition streamErrorResponse :: "string \<Rightarrow> goval" where
  "streamErrorResponse err =
     GMap [(''error'', GMap [ (''message'', GString (''Streaming error: '' @ err)),
                              (''type'', GString ''api_error''),
                              (''code'', GInt 500) ])]"

text \<open>
  \<open>bufio.NewScanner(resp.Body)\<close> with the default split function \<open>ScanLines\<close> and the
  default buffer: a line is the bytes up to the next \<open>\n\<close>, without it and without one
  trailing \<open>\r\<close>; the bytes after the last \<open>\n\<close> are a last line when there are any.
  The buffer grows to \<open>MaxScanTokenSize\<close> bytes and the source never calls \<open>Buffer\<close>, so
  when that many bytes hold no \<open>\n\<close> the scan stops with \<open>ErrTooLong\<close>.
  \<open>scanLines\<close> returns the lines delivered and whether the scan stopped so.
\<close>

definition MaxScanTokenSize :: nat where
  "MaxScanTokenSize = 64 * 1024"

definition dropCR :: "string \<Rightarrow> string" where
  "dropCR data = (if data \<noteq> [] \<and> last data = CHR 0x0D then butlast data else data)"

function scanLines :: "string \<Rightarrow> string list \<times> bool" where
  "scanLines body =
     (if body = [] then ([], False)
      else if CHR 0x0A \<in> set body then
        (if length (takeWhile (\<lambda>c. c \<noteq> CHR 0x0A) body) < MaxScanTokenSize
         then (dropCR (takeWhile (\<lambda>c. c \<noteq> CHR 0x0A) body)
                 # fst (scanLines (tl (dropWhile (\<lambda>c. c \<noteq> CHR 0x0A) body))),
               snd (scanLines (tl (dropWhile (\<lambda>c. c \<noteq> CHR 0x0A) body))))
         else ([], True))
      else if length body < MaxScanTokenSize then ([dropCR body], False)
      else ([], True))"
  by pat_completeness auto
termination
proof (relation "measure length")
  show "wf (measure length)" by simp
next
  fix body :: string
  assume "body \<noteq> []" and "CHR 0x0A \<in> set body"
  then have "dropWhile (\<lambda>c. c \<noteq> CHR 0x0A) body \<noteq> []"
    by (simp add: dropWhile_eq_Nil_conv)
  then have "length (tl (dropWhile (\<lambda>c. c \<noteq> CHR 0x0A) body))
               < length (dropWhile (\<lambda>c. c \<noteq> CHR 0x0A) body)"
    by (cases "dropWhile (\<lambda>c. c \<noteq> CHR 0x0A) body") simp_all
  also have "\<dots> \<le> length body"
    by (rule length_dropWhile_le)
  finally show "(tl (dropWhile (\<lambda>c. c \<noteq> CHR 0x0A) body), body) \<in> measure length"
    by simp
  then show "(tl (dropWhile (\<lambda>c. c \<noteq> CHR 0x0A) body), body) \<in> measure length" .
qed

declare scanLines.simps [simp del]

text \<open>
  The loop over the lines the scanner delivers, and the error frame sent after it
  when \<open>scanner.Err()\<close> is not \<open>nil\<close>; the result is the sequence of byte strings sent
  to the channel.
\<close>

definition relayLines ::
  "json_unmarshal \<Rightarrow> json_marshal \<Rightarrow> string list \<Rightarrow> string option \<Rightarrow> string list" where
  "relayLines unmarshal marshal lines scanErr =
     List.map_filter (lineFrame unmarshal marshal) lines
     @ (case scanErr of
          None \<Rightarrow> []
        | Some err \<Rightarrow>
            (case marshal (streamErrorResponse err) of Some js \<Rightarrow> [sseFrame js] | None \<Rightarrow> []))"

text \<open>
  \<open>StreamResponse\<close> on the bytes of the remote body, which end cleanly
  (\<open>readErr = None\<close>) or with a transport error.  A line that is too long ends the scan
  before the rest of the body is read.
\<close>

definition StreamResponse ::
  "json_unmarshal \<Rightarrow> json_marshal \<Rightarrow> string \<Rightarrow> string option \<Rightarrow> string list" where
  "StreamResponse unmarshal marshal body readErr =
     (case scanLines body of
        (lines, tooLong) \<Rightarrow>
          relayLines unmarshal marshal lines
            (if tooLong then Some ''bufio.Scanner: token too long'' else readErr))"

section \<open>pkg/auth: onboarding\<close>

text \<open>
  An \<open>oauth2.Token\<close>.  A time is a count of nanoseconds; \<open>None\<close> is the zero time.
  \<open>Valid\<close> is the library's: the token has an access token and is not expired, where a
  token expires ten seconds before its expiry and a zero expiry never expires.
\<close>

record Token =
  AccessToken :: string
  TokenType :: string
  RefreshToken :: string
  Expiry :: "int option"

definition seconds :: "int \<Rightarrow> int" where
  "seconds n = n * 1000000000"

definition expired :: "int \<Rightarrow> Token \<Rightarrow> bool" where
  "expired now t = (case Expiry t of None \<Rightarrow> False | Some expiry \<Rightarrow> expiry - seconds 10 < now)"

definition Valid :: "int \<Rightarrow> Token \<Rightarrow> bool" where
  "Valid now t = (AccessToken t \<noteq> [] \<and> \<not> expired now t)"

text \<open>
  A remote call: the token request of the OAuth2 token source, or a POST with its URL,
  its \<open>Authorization\<close> header and the payload that is marshalled into its body.
\<close>

datatype remoteCall =
    TokenRequest Token
  | Post string string goval

text \<open>
  The state of the process and of its surroundings: the heap of tokens (a
  \<open>*oauth2.Token\<close> is an address), the package variables \<open>credentials\<close>,
  \<open>userProjectID\<close>, \<open>onboardingDone\<close> and \<open>credsFromEnv\<close>, the files, the clock, and the
  remote calls issued so far.  The mutex only brackets the accesses to the package
  variables; a call is modelled as running alone.
\<close>

record world =
  heap :: "(nat \<times> Token) list"
  credentials :: "nat option"
  userProjectID :: string
  onboardingDone :: bool
  credsFromEnv :: bool
  files :: "(string \<times> string) list"
  now :: int
  remoteCalls :: "remoteCall list"

text \<open>
  What the code cannot decide: the answers of the remote services (as functions of the
  calls issued before), \<open>encoding/json\<close> and the formatting of a time.
  \<open>unmarshalJSON\<close> is \<open>json.Unmarshal\<close>, which takes the whole input as one document;
  \<open>decodeJSON\<close> is \<open>json.NewDecoder(r).Decode\<close>, which reads the first document of the
  input and accepts data after it.
\<close>

record env =
  tokenEndpoint :: "remoteCall list \<Rightarrow> Token \<Rightarrow> string + Token"
  httpPost :: "remoteCall list \<Rightarrow> remoteCall \<Rightarrow> string + nat \<times> string"
  unmarshalJSON :: json_unmarshal
  decodeJSON :: json_unmarshal
  marshalIndentJSON :: json_marshal
  formatRFC3339 :: "int \<Rightarrow> string"

text \<open>The verb \<open>%d\<close> of \<open>fmt\<close> on a status code: its decimal digits.\<close>

function formatDecimal :: "nat \<Rightarrow> string" where
  "formatDecimal n =
     (if n < 10 then [char_of (48 + n)]
      else formatDecimal (n div 10) @ [char_of (48 + n mod 10)])"
  by pat_completeness auto
termination
  by (relation "measure id") auto

declare formatDecimal.simps [simp del]

datatype outcome =
    Success
  | Failure string
  | NilPointerPanic

text \<open>
  \<open>ac.OAuth2Config.TokenSource(ctx, token).Token()\<close>: a valid token is returned as it
  is; a token without a refresh token is an error; otherwise the token endpoint is
  called.
\<close>

definition tokenSourceToken :: "env \<Rightarrow> Token \<Rightarrow> world \<Rightarrow> (string + Token) \<times> world" where
  "tokenSourceToken e t w =
     (if Valid (now w) t then (Inr t, w)
      else if RefreshToken t = [] then
        (Inl ''oauth2: token expired and refresh token is not set'', w)
      else (tokenEndpoint e (remoteCalls w) t,
            w\<lparr>remoteCalls := remoteCalls w @ [TokenRequest t]\<rparr>))"

definition RefreshToken_method :: "env \<Rightarrow> nat \<Rightarrow> world \<Rightarrow> outcome \<times> world" where
  "RefreshToken_method e token w =
     (case map_of (heap w) token of
        None \<Rightarrow> (NilPointerPanic, w)
      | Some t \<Rightarrow>
          (case tokenSourceToken e t w of
             (Inl err, w1) \<Rightarrow> (Failure err, w1)
           | (Inr newToken, w1) \<Rightarrow>
               (Success,
                w1\<lparr>heap := AList.update token
                    (t\<lparr>AccessToken := AccessToken newToken,
                       RefreshToken := RefreshToken newToken,
                       TokenType := TokenType newToken,
                       Expiry := Expiry newToken\<rparr>) (heap w1)\<rparr>)))"

definition getProjectIDFromFile :: "env \<Rightarrow> Config \<Rightarrow> world \<Rightarrow> string" where
  "getProjectIDFromFile e cfg w =
     (case map_of (files w) (CredentialFile cfg) of
        None \<Rightarrow> []
      | Some data \<Rightarrow>
          (case unmarshalJSON e data of
             Inr (Some credsData) \<Rightarrow>
               (case map_of credsData ''project_id'' of Some (GString projectID) \<Rightarrow> projectID | _ \<Rightarrow> [])
           | _ \<Rightarrow> []))"

text \<open>
  \<open>updateProjectIDInFile\<close>: an assignment into the \<open>nil\<close> map that the document \<open>null\<close>
  leaves behind panics.
\<close>

definition updateProjectIDInFile :: "env \<Rightarrow> Config \<Rightarrow> string \<Rightarrow> world \<Rightarrow> outcome \<times> world" where
  "updateProjectIDInFile e cfg projectID w =
     (case map_of (files w) (CredentialFile cfg) of
        None \<Rightarrow> (Success, w)
      | Some data \<Rightarrow>
          (case unmarshalJSON e data of
             Inl err \<Rightarrow> (Success, w)
           | Inr None \<Rightarrow> (NilPointerPanic, w)
           | Inr (Some existingData) \<Rightarrow>
               (if map_of existingData ''project_id'' = None then
                  (case marshalIndentJSON e (GMap (AList.update ''project_id'' (GString projectID) existingData)) of
                     Some newData \<Rightarrow>
                       (Success, w\<lparr>files := AList.update (CredentialFile cfg) newData (files w)\<rparr>)
                   | None \<Rightarrow> (Success, w))
                else (Success, w))))"

text \<open>
  \<open>SaveCredentials\<close>.  The errors of \<open>json.MarshalIndent\<close> and \<open>os.WriteFile\<close> are
  dropped by the source; a failed marshal writes no bytes, and the write is taken to
  succeed.
\<close>

definition SaveCredentials :: "env \<Rightarrow> Config \<Rightarrow> nat \<Rightarrow> string \<Rightarrow> world \<Rightarrow> outcome \<times> world" where
  "SaveCredentials e cfg token projectID w =
     (if credsFromEnv w then
        (if projectID \<noteq> [] then updateProjectIDInFile e cfg projectID w else (Success, w))
      else
        (case map_of (heap w) token of
           None \<Rightarrow> (NilPointerPanic, w)
         | Some t \<Rightarrow>
             (let credsData0 =
                    [ (''client_id'', GString (ClientID cfg)),
                      (''client_secret'', GString (ClientSecret cfg)),
                      (''token'', GString (AccessToken t)),
                      (''refresh_token'', GString (RefreshToken t)),
                      (''token_uri'', GString ''https://oauth2.googleapis.com/token''),
                      (''scopes'', GStrings (Scopes cfg)) ];
                  credsData1 =
                    (case Expiry t of
                       None \<Rightarrow> credsData0
                     | Some expiry \<Rightarrow>
                         AList.update ''expiry'' (GString (formatRFC3339 e expiry)) credsData0);
                  credsData2 =
                    (if projectID \<noteq> [] then AList.update ''project_id'' (GString projectID) credsData1
                     else if getProjectIDFromFile e cfg w \<noteq> []
                     then AList.update ''project_id'' (GString (getProjectIDFromFile e cfg w)) credsData1
                     else credsData1);
                  data = (case marshalIndentJSON e (GMap credsData2) of Some d \<Rightarrow> d | None \<Rightarrow> [])
              in (Success, w\<lparr>files := AList.update (CredentialFile cfg) data (files w)\<rparr>))))"

definition getClientMetadata :: goval where
  "getClientMetadata =
     GMap [ (''clientName'', GString ''geminicli2api''),
            (''clientVersion'', GString ''1.0.0''),
            (''platform'', GString ''go'') ]"

text \<open>
  \<open>loadCodeAssist\<close>.  \<open>http.NewRequest\<close> fails only on a malformed URL or method; the
  transport error of \<open>httpPost\<close> stands for every failure to get a response.
\<close>

definition loadCodeAssist :: "env \<Rightarrow> Config \<Rightarrow> nat \<Rightarrow> string \<Rightarrow> world \<Rightarrow> outcome \<times> world" where
  "loadCodeAssist e cfg token projectID w =
     (case map_of (heap w) token of
        None \<Rightarrow> (NilPointerPanic, w)
      | Some t \<Rightarrow>
          (let call = Post (CodeAssistEndpoint cfg @ ''/v1internal:loadCodeAssist'')
                        (''Bearer '' @ AccessToken t)
                        (GMap [ (''cloudaicompanionProject'', GString projectID),
                                (''metadata'', getClientMetadata) ]);
               w1 = w\<lparr>remoteCalls := remoteCalls w @ [call]\<rparr>
           in case httpPost e (remoteCalls w) call of
                Inl err \<Rightarrow> (Failure (''failed to make request: '' @ err), w1)
              | Inr (status, body) \<Rightarrow>
                  (if status \<noteq> 200
                   then (Failure (''loadCodeAssist failed with status '' @ formatDecimal status
                                   @ '': '' @ body), w1)
                   else (case decodeJSON e body of
                           Inl err \<Rightarrow> (Failure (''failed to decode loadCodeAssist response: '' @ err), w1)
                         | Inr loadData \<Rightarrow>
                             (if (case loadData of
                                    Some m \<Rightarrow> map_of m ''currentTier'' \<noteq> None
                                  | None \<Rightarrow> False)
                              then (Success, w1\<lparr>onboardingDone := True\<rparr>)
                              else (Success, w1))))))"

text \<open>
  \<open>startOnboarding\<close>: the loop posts the onboarding request until the answer reports
  \<open>done\<close>, sleeping five seconds in between; it has no bound, so not returning is the
  value \<open>None\<close>.
\<close>

partial_function (option) startOnboarding ::
  "env \<Rightarrow> Config \<Rightarrow> nat \<Rightarrow> string \<Rightarrow> world \<Rightarrow> (outcome \<times> world) option" where
  "startOnboarding e cfg token projectID w =
     (case map_of (heap w) token of
        None \<Rightarrow> Some (NilPointerPanic, w)
      | Some t \<Rightarrow>
          (case httpPost e (remoteCalls w)
                  (Post (CodeAssistEndpoint cfg @ ''/v1internal:onboardUser'')
                     (''Bearer '' @ AccessToken t)
                     (GMap [ (''tierId'', GString ''legacy-tier''),
                             (''cloudaicompanionProject'', GString projectID),
                             (''metadata'', getClientMetadata) ])) of
             Inl err \<Rightarrow>
               Some (Failure (''failed to make onboarding request: '' @ err),
                     w\<lparr>remoteCalls := remoteCalls w @
                        [Post (CodeAssistEndpoint cfg @ ''/v1internal:onboardUser'')
                           (''Bearer '' @ AccessToken t)
                           (GMap [ (''tierId'', GString ''legacy-tier''),
                                   (''cloudaicompanionProject'', GString projectID),
                                   (''metadata'', getClientMetadata) ])]\<rparr>)
           | Inr (status, body) \<Rightarrow>
               (if status \<noteq> 200 then
                  Some (Failure (''onboarding request failed with status '' @ formatDecimal status
                                  @ '': '' @ body),
                        w\<lparr>remoteCalls := remoteCalls w @
                           [Post (CodeAssistEndpoint cfg @ ''/v1internal:onboardUser'')
                              (''Bearer '' @ AccessToken t)
                              (GMap [ (''tierId'', GString ''legacy-tier''),
                                      (''cloudaicompanionProject'', GString projectID),
                                      (''metadata'', getClientMetadata) ])]\<rparr>)
                else
                  (case unmarshalJSON e body of
                     Inl err \<Rightarrow>
                       Some (Failure (''failed to decode onboarding response: '' @ err),
                             w\<lparr>remoteCalls := remoteCalls w @
                                [Post (CodeAssistEndpoint cfg @ ''/v1internal:onboardUser'')
                                   (''Bearer '' @ AccessToken t)
                                   (GMap [ (''tierId'', GString ''legacy-tier''),
                                           (''cloudaicompanionProject'', GString projectID),
                                           (''metadata'', getClientMetadata) ])]\<rparr>)
                   | Inr lroData \<Rightarrow>
                       (if (case lroData of
                              Some m \<Rightarrow> map_of m ''done'' = Some (GBool True)
                            | None \<Rightarrow> False)
                        then Some (Success,
                                   w\<lparr>remoteCalls := remoteCalls w @
                                      [Post (CodeAssistEndpoint cfg @ ''/v1internal:onboardUser'')
                                         (''Bearer '' @ AccessToken t)
                                         (GMap [ (''tierId'', GString ''legacy-tier''),
                                                 (''cloudaicompanionProject'', GString projectID),
                                                 (''metadata'', getClientMetadata) ])]\<rparr>)
                        else startOnboarding e cfg token projectID
                               (w\<lparr>remoteCalls := remoteCalls w @
                                  [Post (CodeAssistEndpoint cfg @ ''/v1internal:onboardUser'')
                                     (''Bearer '' @ AccessToken t)
                                     (GMap [ (''tierId'', GString ''legacy-tier''),
                                             (''cloudaicompanionProject'', GString projectID),
                                             (''metadata'', getClientMetadata) ])],
                                  now := now w + seconds 5\<rparr>))))))"

text \<open>
  \<open>OnboardUser\<close>.  The flag is read first; when it is set the function returns \<open>nil\<close>
  at once.  Otherwise the token is refreshed if it is invalid and has a refresh token,
  \<open>loadCodeAssist\<close> is called, and then \<open>startOnboarding\<close>, whose success sets the flag.
\<close>

definition ensureValid :: "env \<Rightarrow> Config \<Rightarrow> nat \<Rightarrow> world \<Rightarrow> outcome \<times> world" where
  "ensureValid e cfg token w =
     (case map_of (heap w) token of
        None \<Rightarrow> (NilPointerPanic, w)
      | Some t \<Rightarrow>
          (if \<not> Valid (now w) t \<and> RefreshToken t \<noteq> [] then
             (case RefreshToken_method e token w of
                (Success, w1) \<Rightarrow> SaveCredentials e cfg token [] w1
              | (Failure err, w1) \<Rightarrow>
                  (Failure (''failed to refresh credentials during onboarding: '' @ err), w1)
              | (NilPointerPanic, w1) \<Rightarrow> (NilPointerPanic, w1))
           else (Success, w)))"

definition OnboardUser ::
  "env \<Rightarrow> Config \<Rightarrow> nat \<Rightarrow> string \<Rightarrow> world \<Rightarrow> (outcome \<times> world) option" where
  "OnboardUser e cfg token projectID w =
     (if onboardingDone w then Some (Success, w)
      else
        (case ensureValid e cfg token w of
           (Success, w1) \<Rightarrow>
             (case loadCodeAssist e cfg token projectID w1 of
                (Success, w2) \<Rightarrow>
                  (case startOnboarding e cfg token projectID w2 of
                     None \<Rightarrow> None
                   | Some (Success, w3) \<Rightarrow> Some (Success, w3\<lparr>onboardingDone := True\<rparr>)
                   | Some (Failure err, w3) \<Rightarrow> Some (Failure (''onboarding failed: '' @ err), w3)
                   | Some (NilPointerPanic, w3) \<Rightarrow> Some (NilPointerPanic, w3))
              | (Failure err, w2) \<Rightarrow> Some (Failure (''loadCodeAssist failed: '' @ err), w2)
              | (NilPointerPanic, w2) \<Rightarrow> Some (NilPointerPanic, w2))
         | (r, w1) \<Rightarrow> Some (r, w1)))"

section \<open>Reading a built payload\<close>

text \<open>
  The parts of a payload the properties below speak about: the \<open>request\<close> object of a
  final payload, the \<open>generationConfig\<close> object of a request, and the entries of its
  \<open>thinkingConfig\<close> object (none when the object is absent).
\<close>

definition objectAt :: "gomap \<Rightarrow> string \<Rightarrow> gomap" where
  "objectAt m k = (case map_of m k of Some (GMap obj) \<Rightarrow> obj | _ \<Rightarrow> [])"

definition requestOf :: "gomap \<Rightarrow> gomap" where
  "requestOf payload = objectAt payload ''request''"

definition generationConfigOf :: "gomap \<Rightarrow> gomap" where
  "generationConfigOf request = objectAt request ''generationConfig''"

definition thinkingConfigOf :: "gomap \<Rightarrow> gomap" where
  "thinkingConfigOf request = objectAt (generationConfigOf request) ''thinkingConfig''"

text \<open>
  A native request on which no type assertion of \<open>BuildGeminiPayloadFromNative\<close> fails:
  \<open>generationConfig\<close>, and \<open>thinkingConfig\<close> in it, are absent or objects, and for a
  search model \<open>tools\<close> is absent or an array.
\<close>

definition absentOrObject :: "gomap \<Rightarrow> string \<Rightarrow> bool" where
  "absentOrObject m k = (case map_of m k of None \<Rightarrow> True | Some (GMap obj) \<Rightarrow> True | _ \<Rightarrow> False)"

definition absentOrArray :: "gomap \<Rightarrow> string \<Rightarrow> bool" where
  "absentOrArray m k = (case map_of m k of None \<Rightarrow> True | Some (GSlice xs) \<Rightarrow> True | _ \<Rightarrow> False)"

definition nativeWellTyped :: "gomap \<Rightarrow> string \<Rightarrow> bool" where
  "nativeWellTyped nativeRequest modelFromPath =
     (absentOrObject nativeRequest ''generationConfig''
      \<and> absentOrObject (generationConfigOf nativeRequest) ''thinkingConfig''
      \<and> (if IsSearchModel modelFromPath then absentOrArray nativeRequest ''tools'' else True))"

text \<open>Concrete inputs used below.\<close>

definition stopListRequest :: OpenAIChatCompletionRequest where
  "stopListRequest =
     \<lparr> reqModel = ''gemini-2.5-pro'',
       Messages = [\<lparr> Role = ''user'', Content = GString ''hi'', ReasoningContent = None \<rparr>],
       Stream = False, reqTemperature = None, reqTopP = None, MaxTokens = None,
       Stop = GSlice [GString ''END'', GString ''STOP''],
       FrequencyPenalty = None, PresencePenalty = None, N = None, Seed = None,
       ResponseFormat = None \<rparr>"

definition plainRequest :: "string \<Rightarrow> OpenAIChatCompletionRequest" where
  "plainRequest model =
     \<lparr> reqModel = model,
       Messages = [\<lparr> Role = ''user'', Content = GString ''hi'', ReasoningContent = None \<rparr>],
       Stream = False, reqTemperature = None, reqTopP = None, MaxTokens = None,
       Stop = GNil,
       FrequencyPenalty = None, PresencePenalty = None, N = None, Seed = None,
       ResponseFormat = None \<rparr>"

definition defaultConfig :: Config where
  "defaultConfig = NewConfig (\<lambda>key. []) ''/app''"

definition callerSafetySettings :: goval where
  "callerSafetySettings =
     GSlice [GMap [(''category'', GString ''HARM_CATEGORY_HARASSMENT''),
                   (''threshold'', GString ''BLOCK_ONLY_HIGH'')]]"

text \<open>
  A thinking variant of one of the two 2.5 families: the name carries a thinking marker
  and its base name is of the flash or the pro family.
\<close>

definition thinkingVariant25 :: "string \<Rightarrow> bool" where
  "thinkingVariant25 m =
     ((Contains m ''-nothinking'' \<or> Contains m ''-maxthinking'')
      \<and> (Contains (GetBaseModelName m) ''gemini-2.5-flash''
           \<or> Contains (GetBaseModelName m) ''gemini-2.5-pro''))"

text \<open>
  An entry of a content array that \<open>processArrayContent\<close> recognises: an object whose
  \<open>type\<close> is the string \<open>text\<close> or \<open>image_url\<close>.
\<close>

definition recognizedEntry :: "goval \<Rightarrow> bool" where
  "recognizedEntry item =
     (case item of
        GMap partMap \<Rightarrow>
          map_of partMap ''type'' = Some (GString ''text'')
          \<or> map_of partMap ''type'' = Some (GString ''image_url'')
      | _ \<Rightarrow> False)"

text \<open>
  The start of every match is at or after the end of the one before (\<open>lastIdx\<close> for
  the first), and no match ends before it starts.
\<close>

fun ordered :: "nat \<Rightarrow> (nat \<times> nat \<times> nat \<times> nat) list \<Rightarrow> bool" where
  "ordered lastIdx [] = True"
| "ordered lastIdx ((m0, m1, m2, m3) # matches) = (lastIdx \<le> m0 \<and> m0 \<le> m1 \<and> ordered m1 matches)"

text \<open>The URL of a match, cleaned, is not a data URI.\<close>

definition notDataURI :: "string \<Rightarrow> nat \<times> nat \<times> nat \<times> nat \<Rightarrow> bool" where
  "notDataURI text m =
     (case m of (m0, m1, m2, m3) \<Rightarrow> \<not> HasPrefix (cleanURL (slice text m2 m3)) ''data:'')"

definition matchedText :: "string \<Rightarrow> nat \<times> nat \<times> nat \<times> nat \<Rightarrow> string" where
  "matchedText text m = (case m of (m0, m1, m2, m3) \<Rightarrow> slice text m0 m1)"

text \<open>
  A decodable event of the remote stream: a line with the prefix \<open>data: \<close> whose data
  is not empty, is not the sentinel \<open>[DONE]\<close>, and for which \<open>parseChunk\<close> returns an
  object.
\<close>

definition decodableEvent :: "json_unmarshal \<Rightarrow> string \<Rightarrow> bool" where
  "decodableEvent unmarshal line =
     (HasPrefix line ''data: '' \<and> drop 6 line \<noteq> [] \<and> drop 6 line \<noteq> ''[DONE]''
      \<and> parseChunk unmarshal (drop 6 line) \<noteq> None)"

text \<open>
  A small decoder and encoder for concrete runs.  The decoder knows the empty object,
  with any number of spaces in it, and \<open>null\<close>; the encoder writes the empty object as
  \<open>{}\<close> and anything else as \<open>{error}\<close>.
\<close>

definition toyUnmarshal :: json_unmarshal where
  "toyUnmarshal s =
     (if filter (\<lambda>c. c \<noteq> CHR '' '') s = ''{}'' then Inr (Some [])
      else if s = ''null'' then Inr None
      else Inl ''invalid character'')"

definition toyMarshal :: json_marshal where
  "toyMarshal v = (if v = GMap [] then Some ''{}'' else Some ''{error}'')"

definition sampleLines :: "string list" where
  "sampleLines =
     [''data: {}'', '': keep-alive'', ''data: '', ''data: [DONE]'', ''event: x'', [],
      ''data: null'', ''data: {bad'', ''data: {}'']"

text \<open>
  A remote body is its lines, each ended by \<open>\n\<close>.  \<open>longEvent\<close> is a data line of an
  empty object padded with \<open>MaxScanTokenSize\<close> spaces, and \<open>longStream\<close> a stream of three
  events of which it is the second.
\<close>

definition streamBody :: "string list \<Rightarrow> string" where
  "streamBody lines = concat (map (\<lambda>line. line @ [CHR 0x0A]) lines)"

definition longEvent :: string where
  "longEvent = ''data: {'' @ replicate MaxScanTokenSize (CHR '' '') @ ''}''"

definition longStream :: "string list" where
  "longStream = [''data: {}'', longEvent, ''data: {}'']"

text \<open>
  A process that is onboarded and one that is not, each holding one valid token at
  address 0, and surroundings in which every remote call fails.
\<close>

definition sampleToken :: Token where
  "sampleToken = \<lparr> AccessToken = ''ya29.token'', TokenType = ''Bearer'',
                   RefreshToken = ''1//refresh'', Expiry = None \<rparr>"

definition onboardedWorld :: world where
  "onboardedWorld =
     \<lparr> heap = [(0, sampleToken)], credentials = Some 0, userProjectID = ''my-project'',
       onboardingDone = True, credsFromEnv = False, files = [], now = 0, remoteCalls = [] \<rparr>"

definition freshWorld :: world where
  "freshWorld = onboardedWorld\<lparr>onboardingDone := False\<rparr>"

definition unreachableEnv :: env where
  "unreachableEnv =
     \<lparr> tokenEndpoint = (\<lambda>calls t. Inl ''connection refused''),
       httpPost = (\<lambda>calls call. Inl ''connection refused''),
       unmarshalJSON = toyUnmarshal,
       decodeJSON = toyUnmarshal,
       marshalIndentJSON = toyMarshal,
       formatRFC3339 = (\<lambda>t. []) \<rparr>"

section \<open>Properties of the variant helpers\<close>

lemma GetBaseModelName_maxthinking: "GetBaseModelName (b @ ''-maxthinking'') = b"
proof -
  have "suffix ''-maxthinking'' (b @ ''-maxthinking'')"
    by (rule suffixI [OF refl])
  then show ?thesis
    by (simp add: GetBaseModelName_def HasSuffix_def)
qed

lemma GetBaseModelName_nothinking: "GetBaseModelName (b @ ''-nothinking'') = b"
proof -
  have "\<not> suffix ''-maxthinking'' (b @ ''-nothinking'')"
    by (simp add: suffix_to_prefix)
  moreover have "suffix ''-nothinking'' (b @ ''-nothinking'')"
    by (rule suffixI [OF refl])
  ultimately show ?thesis
    by (simp add: GetBaseModelName_def HasSuffix_def)
qed

lemma GetBaseModelName_search: "GetBaseModelName (b @ ''-search'') = b"
proof -
  have "\<not> suffix ''-maxthinking'' (b @ ''-search'')"
    and "\<not> suffix ''-nothinking'' (b @ ''-search'')"
    by (simp_all add: suffix_to_prefix)
  moreover have "suffix ''-search'' (b @ ''-search'')"
    by (rule suffixI [OF refl])
  ultimately show ?thesis
    by (simp add: GetBaseModelName_def HasSuffix_def)
qed

text \<open>
  A combined variant name loses only its last suffix: the result still ends in
  \<open>-search\<close>, for every base name.
\<close>

lemma GetBaseModelName_search_nothinking:
  "GetBaseModelName (b @ ''-search-nothinking'') = b @ ''-search''"
  using GetBaseModelName_nothinking [of "b @ ''-search''"] by simp

lemma GetBaseModelName_search_maxthinking:
  "GetBaseModelName (b @ ''-search-maxthinking'') = b @ ''-search''"
  using GetBaseModelName_maxthinking [of "b @ ''-search''"] by simp

text \<open>
  C1. The claim: for every base model of the catalog and every valid non-empty set of
  flags, \<open>GetBaseModelName\<close> of the derived variant name is the base name.
  The code at a combined variant: \<open>models/gemini-2.5-pro-search-nothinking\<close> is a
  name of the generated catalog, derived from the base model \<open>models/gemini-2.5-pro\<close>,
  and \<open>GetBaseModelName\<close> returns \<open>models/gemini-2.5-pro-search\<close> for it, which is
  not the base name: the loop returns after cutting one suffix.
\<close>

theorem C1_GetBaseModelName_combined_variant:
  "''models/gemini-2.5-pro'' \<in> set (map Name getBaseModels)
   \<and> ''models/gemini-2.5-pro'' @ ''-search-nothinking'' \<in> set (map Name generateSupportedModels)
   \<and> GetBaseModelName (''models/gemini-2.5-pro'' @ ''-search-nothinking'')
       = ''models/gemini-2.5-pro-search''
   \<and> GetBaseModelName (''models/gemini-2.5-pro'' @ ''-search-nothinking'')
       \<noteq> ''models/gemini-2.5-pro''"
  by code_simp

lemma no_marker_budget:
  "\<not> Contains m ''-nothinking'' \<Longrightarrow> \<not> Contains m ''-maxthinking''
   \<Longrightarrow> GetThinkingBudget m = - 1"
  by (simp add: GetThinkingBudget_def IsNothinkingModel_def IsMaxthinkingModel_def)

text \<open>
  C5 (as amended). \<open>GetThinkingBudget\<close> returns 0 for \<open>gemini-2.5-flash-nothinking\<close>,
  128 for \<open>gemini-2.5-pro-nothinking\<close>, 24576 for \<open>gemini-2.5-flash-maxthinking\<close>,
  32768 for \<open>gemini-2.5-pro-maxthinking\<close>, and -1 for every model name that contains
  neither \<open>-nothinking\<close> nor \<open>-maxthinking\<close> anywhere (the code tests containment,
  not a suffix).
\<close>

theorem C5_GetThinkingBudget_table:
  "GetThinkingBudget ''gemini-2.5-flash-nothinking'' = 0
   \<and> GetThinkingBudget ''gemini-2.5-pro-nothinking'' = 128
   \<and> GetThinkingBudget ''gemini-2.5-flash-maxthinking'' = 24576
   \<and> GetThinkingBudget ''gemini-2.5-pro-maxthinking'' = 32768
   \<and> (\<forall>m. \<not> Contains m ''-nothinking'' \<and> \<not> Contains m ''-maxthinking''
          \<longrightarrow> GetThinkingBudget m = - 1)"
proof -
  have "GetThinkingBudget ''gemini-2.5-flash-nothinking'' = 0" by code_simp
  moreover have "GetThinkingBudget ''gemini-2.5-pro-nothinking'' = 128" by code_simp
  moreover have "GetThinkingBudget ''gemini-2.5-flash-maxthinking'' = 24576" by code_simp
  moreover have "GetThinkingBudget ''gemini-2.5-pro-maxthinking'' = 32768" by code_simp
  ultimately show ?thesis using no_marker_budget by blast
qed

theorem C5_GetThinkingBudget_table_witness:
  "\<not> Contains ''gemini-2.5-pro'' ''-nothinking''
   \<and> \<not> Contains ''gemini-2.5-pro'' ''-maxthinking''
   \<and> GetThinkingBudget ''gemini-2.5-pro'' = - 1"
proof -
  have a: "\<not> Contains ''gemini-2.5-pro'' ''-nothinking''" by code_simp
  have b: "\<not> Contains ''gemini-2.5-pro'' ''-maxthinking''" by code_simp
  from C5_GetThinkingBudget_table a b show ?thesis by blast
qed

text \<open>
  C5, the claim as stated fails: \<open>gemini-2.5-flash-nothinking-search\<close> ends in neither
  \<open>-nothinking\<close> nor \<open>-maxthinking\<close>, and its budget is 0, not -1.
\<close>

theorem C5_suffix_counterexample:
  "\<not> HasSuffix ''gemini-2.5-flash-nothinking-search'' ''-nothinking''
   \<and> \<not> HasSuffix ''gemini-2.5-flash-nothinking-search'' ''-maxthinking''
   \<and> GetThinkingBudget ''gemini-2.5-flash-nothinking-search'' = 0"
  by code_simp

section \<open>Properties of the payload builders\<close>

subsection \<open>Maps\<close>

lemma map_of_update_same: "map_of (AList.update k v m) k = Some v"
  by (simp add: update_conv')

lemma map_of_update_other: "k' \<noteq> k \<Longrightarrow> map_of (AList.update k' v m) k = map_of m k"
  by (simp add: update_conv')

lemma objectAt_update_same: "objectAt (AList.update k (GMap obj) m) k = obj"
  by (simp add: objectAt_def map_of_update_same)

subsection \<open>The native path\<close>

text \<open>The shape of a successful native build.\<close>

lemma native_Inr_elim:
  assumes "BuildGeminiPayloadFromNative cfg nativeRequest m = Inr p"
  obtains request1 genConfig0 genConfig1 thinkingConfig0 request3 where
    "request1 = (let request0 = AList.update ''safetySettings'' (GMaps (SafetySettings cfg)) nativeRequest
                 in if map_of request0 ''generationConfig'' = None
                    then AList.update ''generationConfig'' (GMap []) request0 else request0)"
    "getv request1 ''generationConfig'' = GMap genConfig0"
    "genConfig1 = (if map_of genConfig0 ''thinkingConfig'' = None
                   then AList.update ''thinkingConfig'' (GMap []) genConfig0 else genConfig0)"
    "getv genConfig1 ''thinkingConfig'' = GMap thinkingConfig0"
    "nativeSearchTools m
       (AList.update ''generationConfig''
          (GMap (AList.update ''thinkingConfig''
                   (GMap (if \<not> Contains m ''gemini-2.5-flash-image''
                          then nativeThinking m thinkingConfig0 else thinkingConfig0))
                   genConfig1))
          request1) = Inr request3"
    "p = [(''model'', GString (GetBaseModelName m)), (''request'', GMap request3)]"
  using assms unfolding BuildGeminiPayloadFromNative_def Let_def
  by (auto split: goval.splits sum.splits)

lemma nativeSearchTools_other:
  assumes "nativeSearchTools m request = Inr request'" and "k \<noteq> ''tools''"
  shows "map_of request' k = map_of request k"
  using assms
  by (auto simp: nativeSearchTools_def Let_def map_of_update_other split: if_splits goval.splits)

lemma requestOf_payload: "requestOf [(''model'', v), (''request'', GMap r)] = r"
  by (simp add: requestOf_def objectAt_def)

lemma BuildGeminiPayloadFromNative_safety:
  assumes "BuildGeminiPayloadFromNative cfg nativeRequest m = Inr p"
  shows "map_of (requestOf p) ''safetySettings'' = Some (GMaps (SafetySettings cfg))"
proof -
  from assms obtain request1 genConfig0 genConfig1 thinkingConfig0 request3 where
    r1: "request1 = (let request0 = AList.update ''safetySettings'' (GMaps (SafetySettings cfg)) nativeRequest
                 in if map_of request0 ''generationConfig'' = None
                    then AList.update ''generationConfig'' (GMap []) request0 else request0)"
    and st: "nativeSearchTools m
       (AList.update ''generationConfig''
          (GMap (AList.update ''thinkingConfig''
                   (GMap (if \<not> Contains m ''gemini-2.5-flash-image''
                          then nativeThinking m thinkingConfig0 else thinkingConfig0))
                   genConfig1))
          request1) = Inr request3"
    and p: "p = [(''model'', GString (GetBaseModelName m)), (''request'', GMap request3)]"
    by (rule native_Inr_elim)
  have "map_of request1 ''safetySettings'' = Some (GMaps (SafetySettings cfg))"
    by (simp add: r1 Let_def map_of_update_other map_of_update_same)
  with nativeSearchTools_other [OF st, of "''safetySettings''"]
  have "map_of request3 ''safetySettings'' = Some (GMaps (SafetySettings cfg))"
    by (simp add: map_of_update_other)
  then show ?thesis by (simp add: p requestOf_payload)
qed

lemma BuildGeminiPayloadFromNative_thinkingConfig:
  assumes "BuildGeminiPayloadFromNative cfg nativeRequest m = Inr p"
  shows "thinkingConfigOf (requestOf p) =
           (if \<not> Contains m ''gemini-2.5-flash-image''
            then nativeThinking m (thinkingConfigOf nativeRequest)
            else thinkingConfigOf nativeRequest)"
proof -
  from assms obtain request1 genConfig0 genConfig1 thinkingConfig0 request3 where
    r1: "request1 = (let request0 = AList.update ''safetySettings'' (GMaps (SafetySettings cfg)) nativeRequest
                 in if map_of request0 ''generationConfig'' = None
                    then AList.update ''generationConfig'' (GMap []) request0 else request0)"
    and g0: "getv request1 ''generationConfig'' = GMap genConfig0"
    and g1: "genConfig1 = (if map_of genConfig0 ''thinkingConfig'' = None
                   then AList.update ''thinkingConfig'' (GMap []) genConfig0 else genConfig0)"
    and t0: "getv genConfig1 ''thinkingConfig'' = GMap thinkingConfig0"
    and st: "nativeSearchTools m
       (AList.update ''generationConfig''
          (GMap (AList.update ''thinkingConfig''
                   (GMap (if \<not> Contains m ''gemini-2.5-flash-image''
                          then nativeThinking m thinkingConfig0 else thinkingConfig0))
                   genConfig1))
          request1) = Inr request3"
    and p: "p = [(''model'', GString (GetBaseModelName m)), (''request'', GMap request3)]"
    by (rule native_Inr_elim)
  have gin: "generationConfigOf nativeRequest = (if map_of nativeRequest ''generationConfig'' = None then [] else genConfig0)"
    using g0 by (auto simp: r1 Let_def generationConfigOf_def objectAt_def getv_def
        map_of_update_other map_of_update_same split: if_splits option.splits)
  have tin: "thinkingConfigOf nativeRequest = thinkingConfig0"
    using t0 g0 unfolding thinkingConfigOf_def gin
    by (auto simp: r1 g1 Let_def objectAt_def getv_def map_of_update_other map_of_update_same
        split: if_splits option.splits)
  have "generationConfigOf request3 =
          AList.update ''thinkingConfig''
                   (GMap (if \<not> Contains m ''gemini-2.5-flash-image''
                          then nativeThinking m thinkingConfig0 else thinkingConfig0))
                   genConfig1"
    using nativeSearchTools_other [OF st, of "''generationConfig''"]
    by (simp add: generationConfigOf_def objectAt_def map_of_update_same)
  then have "thinkingConfigOf (requestOf p) =
          (if \<not> Contains m ''gemini-2.5-flash-image''
           then nativeThinking m thinkingConfig0 else thinkingConfig0)"
    by (simp add: p requestOf_payload thinkingConfigOf_def objectAt_update_same)
  then show ?thesis by (simp only: tin)
qed

lemma nativeSearchTools_returns:
  assumes "IsSearchModel m \<Longrightarrow> absentOrArray request ''tools''"
  shows "\<exists>request'. nativeSearchTools m request = Inr request'"
  using assms
  by (auto simp: nativeSearchTools_def Let_def absentOrArray_def getv_def map_of_update_same
      split: option.splits goval.splits)

lemma absentOrArray_update_other:
  "k' \<noteq> k \<Longrightarrow> absentOrArray (AList.update k' v m) k = absentOrArray m k"
  by (simp add: absentOrArray_def map_of_update_other)

lemma BuildGeminiPayloadFromNative_returns:
  assumes "nativeWellTyped nativeRequest m"
  shows "\<exists>p. BuildGeminiPayloadFromNative cfg nativeRequest m = Inr p"
proof -
  define request1 where "request1 = (let request0 = AList.update ''safetySettings'' (GMaps (SafetySettings cfg)) nativeRequest
                 in if map_of request0 ''generationConfig'' = None
                    then AList.update ''generationConfig'' (GMap []) request0 else request0)"
  from assms have a: "absentOrObject nativeRequest ''generationConfig''"
    and b: "absentOrObject (generationConfigOf nativeRequest) ''thinkingConfig''"
    and c: "IsSearchModel m \<Longrightarrow> absentOrArray nativeRequest ''tools''"
    by (auto simp: nativeWellTyped_def split: if_splits)
  from a obtain genConfig0 where g0: "getv request1 ''generationConfig'' = GMap genConfig0"
    and gin: "generationConfigOf nativeRequest = genConfig0"
    by (auto simp: request1_def Let_def absentOrObject_def getv_def generationConfigOf_def objectAt_def
        map_of_update_other map_of_update_same split: option.splits goval.splits)
  define genConfig1 where "genConfig1 = (if map_of genConfig0 ''thinkingConfig'' = None
                   then AList.update ''thinkingConfig'' (GMap []) genConfig0 else genConfig0)"
  from b obtain thinkingConfig0 where t0: "getv genConfig1 ''thinkingConfig'' = GMap thinkingConfig0"
    by (auto simp: gin genConfig1_def absentOrObject_def getv_def map_of_update_same
        split: option.splits goval.splits)
  define request2 where "request2 = AList.update ''generationConfig''
          (GMap (AList.update ''thinkingConfig''
                   (GMap (if \<not> Contains m ''gemini-2.5-flash-image''
                          then nativeThinking m thinkingConfig0 else thinkingConfig0))
                   genConfig1))
          request1"
  have "IsSearchModel m \<Longrightarrow> absentOrArray request2 ''tools''"
    using c by (simp add: request2_def request1_def Let_def absentOrArray_update_other)
  then obtain request3 where "nativeSearchTools m request2 = Inr request3"
    using nativeSearchTools_returns by blast
  then show ?thesis
    using g0 t0
    unfolding BuildGeminiPayloadFromNative_def Let_def request2_def genConfig1_def request1_def
    by simp
qed

subsection \<open>The OpenAI path\<close>

lemma setOpt_other: "k' \<noteq> k \<Longrightarrow> map_of (setOpt k' w p m) k = map_of m k"
  by (simp add: setOpt_def map_of_update_other split: option.splits)

lemma setStop_other: "k \<noteq> ''stopSequences'' \<Longrightarrow> map_of (setStop s m) k = map_of m k"
  by (simp add: setStop_def map_of_update_other split: goval.splits)

lemma setResponseFormat_other:
  "k \<noteq> ''responseMimeType'' \<Longrightarrow> map_of (setResponseFormat rf m) k = map_of m k"
  by (simp add: setResponseFormat_def map_of_update_other split: option.splits goval.splits)

lemma buildGenerationConfig_no_thinkingConfig:
  "map_of (buildGenerationConfig r) ''thinkingConfig'' = None"
  by (simp add: buildGenerationConfig_def Let_def setOpt_other setStop_other setResponseFormat_other)

lemma buildGenerationConfig_stop:
  "map_of (buildGenerationConfig r) ''stopSequences'' = map_of (setStop (Stop r) []) ''stopSequences''"
  by (simp add: buildGenerationConfig_def Let_def setOpt_other setResponseFormat_other
      setStop_def map_of_update_same split: goval.splits)

lemma addThinkingConfig_fresh:
  assumes "map_of gc ''thinkingConfig'' = None"
  shows "addThinkingConfig model gc =
           Inr (if \<not> Contains model ''gemini-2.5-flash-image'' \<and> GetThinkingBudget model \<noteq> - 1
                then AList.update ''thinkingConfig''
                       (GMap [(''thinkingBudget'', GInt (GetThinkingBudget model)),
                              (''includeThoughts'', GBool (ShouldIncludeThoughts model))])
                       (AList.update ''thinkingConfig'' (GMap []) gc)
                else gc)"
  using assms
  by (simp add: addThinkingConfig_def Let_def getv_def map_of_update_same)

text \<open>The shape of a successful translation.\<close>

lemma openai_Inr_elim:
  assumes "OpenAIRequestToGemini req = Inr p"
  obtains contents generationConfig base where
    "messagesToContents (Messages req) = Inr contents"
    "addThinkingConfig (reqModel req) (buildGenerationConfig req) = Inr generationConfig"
    "base = [ (''contents'', GMaps contents),
              (''generationConfig'', GMap generationConfig),
              (''safetySettings'', GMaps getDefaultSafetySettings),
              (''model'', GString (GetBaseModelName (reqModel req))) ]"
    "p = (if IsSearchModel (reqModel req)
          then AList.update ''tools'' (GMaps [[(''googleSearch'', GMap [])]]) base else base)"
  using assms unfolding OpenAIRequestToGemini_def Let_def
  by (auto split: sum.splits)

lemma OpenAIRequestToGemini_safety:
  assumes "OpenAIRequestToGemini req = Inr p"
  shows "map_of p ''safetySettings'' = Some (GMaps getDefaultSafetySettings)"
  using assms by (elim openai_Inr_elim) (simp add: map_of_update_other)

lemma OpenAIRequestToGemini_generationConfig:
  assumes "OpenAIRequestToGemini req = Inr p"
  shows "addThinkingConfig (reqModel req) (buildGenerationConfig req) = Inr (generationConfigOf p)"
  using assms
  by (elim openai_Inr_elim) (simp add: map_of_update_other generationConfigOf_def objectAt_def)

lemma OpenAIRequestToGemini_returns:
  assumes "messagesToContents (Messages req) = Inr contents"
  shows "\<exists>p. OpenAIRequestToGemini req = Inr p"
  using assms
  by (simp add: OpenAIRequestToGemini_def Let_def
      addThinkingConfig_fresh [OF buildGenerationConfig_no_thinkingConfig])

lemma requestData_filter:
  assumes "map_of rd k = Some v" and "v \<noteq> GNil"
  shows "map_of (filter (\<lambda>(k, v). v \<noteq> GNil) rd) k = Some v"
  using assms(1) by (rule map_of_filter_in) (simp add: assms(2))

lemma requestOf_BuildGeminiPayloadFromOpenAI:
  "requestOf (BuildGeminiPayloadFromOpenAI cfg p) =
     filter (\<lambda>(k, v). v \<noteq> GNil) (openaiRequestData cfg p)"
  by (simp add: BuildGeminiPayloadFromOpenAI_def requestOf_def objectAt_def Let_def)

lemma BuildGeminiPayloadFromOpenAI_safety:
  assumes "map_of p ''safetySettings'' = Some (GMaps ss)"
  shows "map_of (requestOf (BuildGeminiPayloadFromOpenAI cfg p)) ''safetySettings'' = Some (GMaps ss)"
proof -
  have "map_of (openaiRequestData cfg p) ''safetySettings'' = Some (GMaps ss)"
    using assms by (simp add: openaiRequestData_def)
  then show ?thesis
    unfolding requestOf_BuildGeminiPayloadFromOpenAI by (rule requestData_filter) simp
qed

lemma BuildGeminiPayloadFromOpenAI_generationConfig:
  assumes "OpenAIRequestToGemini req = Inr p"
  shows "generationConfigOf (requestOf (BuildGeminiPayloadFromOpenAI cfg p)) = generationConfigOf p"
proof -
  from assms obtain gc where gc: "map_of p ''generationConfig'' = Some (GMap gc)"
    by (elim openai_Inr_elim) (simp add: map_of_update_other)
  then have "map_of (openaiRequestData cfg p) ''generationConfig'' = Some (GMap gc)"
    by (simp add: openaiRequestData_def Let_def getv_def)
  then have "map_of (requestOf (BuildGeminiPayloadFromOpenAI cfg p)) ''generationConfig'' = Some (GMap gc)"
    unfolding requestOf_BuildGeminiPayloadFromOpenAI by (rule requestData_filter) simp
  with gc show ?thesis by (simp add: generationConfigOf_def objectAt_def)
qed

section \<open>Properties of the translation\<close>

lemma thinkingVariant25_budget: "thinkingVariant25 m \<Longrightarrow> GetThinkingBudget m \<noteq> - 1"
  by (auto simp: thinkingVariant25_def GetThinkingBudget_def Let_def IsNothinkingModel_def
      IsMaxthinkingModel_def)

lemma nativeThinking_includeThoughts:
  "map_of (nativeThinking m tc) ''includeThoughts'' = Some (GBool (ShouldIncludeThoughts m))"
  by (simp add: nativeThinking_def Let_def map_of_update_other map_of_update_same)

lemma nativeThinking_budget:
  "GetThinkingBudget m \<noteq> - 1 \<Longrightarrow>
   map_of (nativeThinking m tc) ''thinkingBudget'' = Some (GInt (GetThinkingBudget m))"
  by (simp add: nativeThinking_def Let_def map_of_update_same)

text \<open>
  C2 (as amended).  Every remote payload carries the fixed table: the payload of the
  OpenAI path (the output of \<open>OpenAIRequestToGemini\<close>, and the request built from it
  by \<open>BuildGeminiPayloadFromOpenAI\<close>) has \<open>safetySettings\<close> equal to the ten-category
  \<open>BLOCK_NONE\<close> table, and the request of every payload the native path builds has
  \<open>safetySettings\<close> equal to the configuration's table, which \<open>NewConfig\<close> sets to the
  same ten entries; this holds whatever \<open>safetySettings\<close> the caller of the native path
  supplied.  The OpenAI path returns a payload whenever the content of every message
  is translated, and the native path for every request on which its type assertions
  hold.
\<close>

theorem C2_safetySettings:
  "(\<forall>req p. OpenAIRequestToGemini req = Inr p \<longrightarrow>
        map_of p ''safetySettings'' = Some (GMaps getDefaultSafetySettings)
        \<and> map_of (requestOf (BuildGeminiPayloadFromOpenAI cfg p)) ''safetySettings''
            = Some (GMaps getDefaultSafetySettings))
   \<and> (\<forall>req contents. messagesToContents (Messages req) = Inr contents \<longrightarrow>
        (\<exists>p. OpenAIRequestToGemini req = Inr p))
   \<and> (\<forall>nativeRequest m p. BuildGeminiPayloadFromNative cfg nativeRequest m = Inr p \<longrightarrow>
        map_of (requestOf p) ''safetySettings'' = Some (GMaps (SafetySettings cfg)))
   \<and> (\<forall>nativeRequest m. nativeWellTyped nativeRequest m \<longrightarrow>
        (\<exists>p. BuildGeminiPayloadFromNative cfg nativeRequest m = Inr p))
   \<and> SafetySettings (NewConfig getenv scriptDir) = getDefaultSafetySettings
   \<and> length getDefaultSafetySettings = 10
   \<and> distinct (map (\<lambda>s. map_of s ''category'') getDefaultSafetySettings)
   \<and> (\<forall>s \<in> set getDefaultSafetySettings. map_of s ''threshold'' = Some (GString ''BLOCK_NONE''))"
proof (intro conjI allI impI)
  fix req :: OpenAIChatCompletionRequest and contents
  assume "messagesToContents (Messages req) = Inr contents"
  then show "\<exists>p. OpenAIRequestToGemini req = Inr p"
    by (rule OpenAIRequestToGemini_returns)
next
  fix req p assume "OpenAIRequestToGemini req = Inr p"
  then show t: "map_of p ''safetySettings'' = Some (GMaps getDefaultSafetySettings)"
    by (rule OpenAIRequestToGemini_safety)
  then show "map_of (requestOf (BuildGeminiPayloadFromOpenAI cfg p)) ''safetySettings''
            = Some (GMaps getDefaultSafetySettings)"
    by (rule BuildGeminiPayloadFromOpenAI_safety)
next
  fix nativeRequest m p assume "BuildGeminiPayloadFromNative cfg nativeRequest m = Inr p"
  then show "map_of (requestOf p) ''safetySettings'' = Some (GMaps (SafetySettings cfg))"
    by (rule BuildGeminiPayloadFromNative_safety)
next
  fix nativeRequest m assume "nativeWellTyped nativeRequest m"
  then show "\<exists>p. BuildGeminiPayloadFromNative cfg nativeRequest m = Inr p"
    by (rule BuildGeminiPayloadFromNative_returns)
next
  show "SafetySettings (NewConfig getenv scriptDir) = getDefaultSafetySettings"
    by (simp add: NewConfig_def Let_def getDefaultSafetySettings_def config_getDefaultSafetySettings_def)
next
  show "length getDefaultSafetySettings = 10"
    by (simp add: getDefaultSafetySettings_def)
next
  show "distinct (map (\<lambda>s. map_of s ''category'') getDefaultSafetySettings)"
    by code_simp
next
  show "\<forall>s \<in> set getDefaultSafetySettings. map_of s ''threshold'' = Some (GString ''BLOCK_NONE'')"
    by (simp add: getDefaultSafetySettings_def)
qed

theorem C2_safetySettings_witness:
  "nativeWellTyped [(''safetySettings'', callerSafetySettings)] ''gemini-2.5-pro''
   \<and> (case BuildGeminiPayloadFromNative defaultConfig [(''safetySettings'', callerSafetySettings)] ''gemini-2.5-pro'' of
        Inr p \<Rightarrow> map_of (requestOf p) ''safetySettings'' = Some (GMaps getDefaultSafetySettings)
      | Inl e \<Rightarrow> False)
   \<and> (case OpenAIRequestToGemini (plainRequest ''gemini-2.5-pro'') of
        Inr p \<Rightarrow> map_of (requestOf (BuildGeminiPayloadFromOpenAI defaultConfig p)) ''safetySettings''
                  = Some (GMaps getDefaultSafetySettings)
      | Inl e \<Rightarrow> False)"
proof -
  note inst = C2_safetySettings [of defaultConfig "\<lambda>key. []" "''/app''"]
  have wt: "nativeWellTyped [(''safetySettings'', callerSafetySettings)] ''gemini-2.5-pro''"
    by code_simp
  have cfg: "SafetySettings defaultConfig = getDefaultSafetySettings"
    using inst unfolding defaultConfig_def by (elim conjE)
  from inst have ret: "\<forall>nativeRequest m. nativeWellTyped nativeRequest m \<longrightarrow>
        (\<exists>p. BuildGeminiPayloadFromNative defaultConfig nativeRequest m = Inr p)"
    by (elim conjE)
  from inst have nat: "\<forall>nativeRequest m p. BuildGeminiPayloadFromNative defaultConfig nativeRequest m = Inr p \<longrightarrow>
        map_of (requestOf p) ''safetySettings'' = Some (GMaps (SafetySettings defaultConfig))"
    by (elim conjE)
  from inst have oa: "\<forall>req p. OpenAIRequestToGemini req = Inr p \<longrightarrow>
        map_of p ''safetySettings'' = Some (GMaps getDefaultSafetySettings)
        \<and> map_of (requestOf (BuildGeminiPayloadFromOpenAI defaultConfig p)) ''safetySettings''
            = Some (GMaps getDefaultSafetySettings)"
    by (elim conjE)
  from ret wt obtain p where
    p: "BuildGeminiPayloadFromNative defaultConfig [(''safetySettings'', callerSafetySettings)] ''gemini-2.5-pro'' = Inr p"
    by blast
  with nat have p': "map_of (requestOf p) ''safetySettings'' = Some (GMaps getDefaultSafetySettings)"
    unfolding cfg by blast
  have "\<not> isl (OpenAIRequestToGemini (plainRequest ''gemini-2.5-pro''))"
    by code_simp
  then obtain q where q: "OpenAIRequestToGemini (plainRequest ''gemini-2.5-pro'') = Inr q"
    by (cases "OpenAIRequestToGemini (plainRequest ''gemini-2.5-pro'')") auto
  with oa have "map_of (requestOf (BuildGeminiPayloadFromOpenAI defaultConfig q)) ''safetySettings''
                  = Some (GMaps getDefaultSafetySettings)"
    by blast
  with wt p p' q show ?thesis by simp
qed

text \<open>
  C2, the claim as stated fails: a table supplied by the caller of the native path is
  not preserved; the built request carries the default table instead.
\<close>

theorem C2_native_override_counterexample:
  "map_of [(''safetySettings'', callerSafetySettings)] ''safetySettings'' = Some callerSafetySettings
   \<and> (case BuildGeminiPayloadFromNative defaultConfig [(''safetySettings'', callerSafetySettings)]
             ''gemini-2.5-pro'' of
        Inr p \<Rightarrow> map_of (requestOf p) ''safetySettings'' = Some (GMaps getDefaultSafetySettings)
                 \<and> map_of (requestOf p) ''safetySettings'' \<noteq> Some callerSafetySettings
      | Inl e \<Rightarrow> False)"
  by code_simp

text \<open>
  C7.  \<open>mapFinishReason\<close> returns \<open>stop\<close> for \<open>STOP\<close>, \<open>length\<close> for \<open>MAX_TOKENS\<close>,
  \<open>content_filter\<close> for \<open>SAFETY\<close> and for \<open>RECITATION\<close>, and \<open>nil\<close> for every other
  value: any other string, an absent reason (\<open>nil\<close>) and a value that is not a string.
\<close>

theorem C7_mapFinishReason_table:
  "mapFinishReason (GString ''STOP'') = Some ''stop''
   \<and> mapFinishReason (GString ''MAX_TOKENS'') = Some ''length''
   \<and> mapFinishReason (GString ''SAFETY'') = Some ''content_filter''
   \<and> mapFinishReason (GString ''RECITATION'') = Some ''content_filter''
   \<and> (\<forall>reason. reason \<notin> {GString ''STOP'', GString ''MAX_TOKENS'', GString ''SAFETY'',
                             GString ''RECITATION''}
          \<longrightarrow> mapFinishReason reason = None)"
  by (auto simp: mapFinishReason_def split: goval.splits)

text \<open>C7 at an absent reason, an unrecognised string and a value that is not a string.\<close>

theorem C7_mapFinishReason_table_witness:
  "mapFinishReason GNil = None
   \<and> mapFinishReason (GString ''FINISH_REASON_UNSPECIFIED'') = None
   \<and> mapFinishReason (GInt 1) = None"
  using C7_mapFinishReason_table by simp

subsection \<open>Stop sequences\<close>

lemma addThinkingConfig_other:
  assumes "addThinkingConfig model gc = Inr gc'" and "k \<noteq> ''thinkingConfig''"
  shows "map_of gc' k = map_of gc k"
  using assms
  by (auto simp: addThinkingConfig_def Let_def map_of_update_other split: if_splits goval.splits)

lemma OpenAIRequestToGemini_stop:
  assumes "OpenAIRequestToGemini req = Inr p"
  shows "map_of (generationConfigOf p) ''stopSequences''
           = map_of (setStop (Stop req) []) ''stopSequences''"
proof -
  have "addThinkingConfig (reqModel req) (buildGenerationConfig req) = Inr (generationConfigOf p)"
    using assms by (rule OpenAIRequestToGemini_generationConfig)
  then have "map_of (generationConfigOf p) ''stopSequences''
               = map_of (buildGenerationConfig req) ''stopSequences''"
    by (rule addThinkingConfig_other) simp
  then show ?thesis by (simp only: buildGenerationConfig_stop)
qed

lemma stop_string:
  assumes "OpenAIRequestToGemini req = Inr p" and "Stop req = GString s"
  shows "map_of (generationConfigOf p) ''stopSequences'' = Some (GStrings [s])"
  using OpenAIRequestToGemini_stop [OF assms(1)] by (simp add: assms(2) setStop_def)

lemma stop_strings:
  assumes "OpenAIRequestToGemini req = Inr p" and "Stop req = GStrings ss"
  shows "map_of (generationConfigOf p) ''stopSequences'' = Some (GStrings ss)"
  using OpenAIRequestToGemini_stop [OF assms(1)] by (simp add: assms(2) setStop_def)

text \<open>Any other dynamic type of \<open>Stop\<close>, a \<open>[]interface{}\<close> among them, sets nothing.\<close>

lemma stop_other:
  assumes "OpenAIRequestToGemini req = Inr p"
    and "\<forall>s. Stop req \<noteq> GString s" and "\<forall>ss. Stop req \<noteq> GStrings ss"
  shows "map_of (generationConfigOf p) ''stopSequences'' = None"
  using OpenAIRequestToGemini_stop [OF assms(1)] assms(2,3)
  by (cases "Stop req") (simp_all add: setStop_def)

text \<open>
  C3.  The claim: a non-nil \<open>stop\<close> is mapped to \<open>stopSequences\<close>, a string as a
  one-element list and a list of strings as the same list.  A string is mapped
  (\<open>stop_string\<close>), and so is a value of dynamic type \<open>[]string\<close> (\<open>stop_strings\<close>).
  But the field \<open>Stop\<close> is an \<open>interface{}\<close> bound by \<open>encoding/json\<close>, which stores a JSON
  array as a \<open>[]interface{}\<close>: for the request body with \<open>"stop": ["END", "STOP"]\<close>
  the type switch matches neither case and the generation config has no
  \<open>stopSequences\<close>.
\<close>

theorem C3_stop_list_dropped:
  "Stop stopListRequest = GSlice [GString ''END'', GString ''STOP'']
   \<and> (case OpenAIRequestToGemini stopListRequest of
        Inr p \<Rightarrow> map_of (generationConfigOf p) ''stopSequences'' = None
      | Inl e \<Rightarrow> False)"
  by code_simp

subsection \<open>Thinking configuration\<close>

text \<open>
  C4 (as amended).  For a model name that contains \<open>gemini-2.5-flash-image\<close>, neither
  path writes a thinking entry: the generation config of the OpenAI path has no
  \<open>thinkingConfig\<close>, and the entries of \<open>thinkingConfig\<close> in the request of the native
  path are those the caller supplied.  For every other model name that carries a
  thinking marker and whose base name is of the gemini-2.5-flash or gemini-2.5-pro
  family, both paths set \<open>thinkingBudget\<close> to the table value and \<open>includeThoughts\<close> to
  \<open>ShouldIncludeThoughts\<close> of the name, in \<open>generationConfig.thinkingConfig\<close>.
\<close>

theorem C4_thinking_configuration:
  "(\<forall>req p. Contains (reqModel req) ''gemini-2.5-flash-image'' \<and> OpenAIRequestToGemini req = Inr p
       \<longrightarrow> map_of (generationConfigOf p) ''thinkingConfig'' = None
           \<and> generationConfigOf (requestOf (BuildGeminiPayloadFromOpenAI cfg p)) = generationConfigOf p)
   \<and> (\<forall>nativeRequest m p.
         Contains m ''gemini-2.5-flash-image'' \<and> BuildGeminiPayloadFromNative cfg nativeRequest m = Inr p
       \<longrightarrow> thinkingConfigOf (requestOf p) = thinkingConfigOf nativeRequest)
   \<and> (\<forall>req p. \<not> Contains (reqModel req) ''gemini-2.5-flash-image'' \<and> thinkingVariant25 (reqModel req)
           \<and> OpenAIRequestToGemini req = Inr p
       \<longrightarrow> map_of (generationConfigOf p) ''thinkingConfig''
             = Some (GMap [(''thinkingBudget'', GInt (GetThinkingBudget (reqModel req))),
                           (''includeThoughts'', GBool (ShouldIncludeThoughts (reqModel req)))])
           \<and> generationConfigOf (requestOf (BuildGeminiPayloadFromOpenAI cfg p)) = generationConfigOf p)
   \<and> (\<forall>nativeRequest m p.
         \<not> Contains m ''gemini-2.5-flash-image'' \<and> thinkingVariant25 m
           \<and> BuildGeminiPayloadFromNative cfg nativeRequest m = Inr p
       \<longrightarrow> map_of (thinkingConfigOf (requestOf p)) ''thinkingBudget'' = Some (GInt (GetThinkingBudget m))
           \<and> map_of (thinkingConfigOf (requestOf p)) ''includeThoughts''
               = Some (GBool (ShouldIncludeThoughts m)))
   \<and> (\<forall>m. thinkingVariant25 m \<longrightarrow> GetThinkingBudget m \<in> {0, 128, 24576, 32768})"
proof (intro conjI allI impI; (elim conjE)?)
  fix req p
  assume img: "Contains (reqModel req) ''gemini-2.5-flash-image''"
    and ok: "OpenAIRequestToGemini req = Inr p"
  have "addThinkingConfig (reqModel req) (buildGenerationConfig req) = Inr (generationConfigOf p)"
    using ok by (rule OpenAIRequestToGemini_generationConfig)
  then have "generationConfigOf p = buildGenerationConfig req"
    using img by (simp add: addThinkingConfig_fresh [OF buildGenerationConfig_no_thinkingConfig])
  then show "map_of (generationConfigOf p) ''thinkingConfig'' = None"
    by (simp add: buildGenerationConfig_no_thinkingConfig)
  show "generationConfigOf (requestOf (BuildGeminiPayloadFromOpenAI cfg p)) = generationConfigOf p"
    using ok by (rule BuildGeminiPayloadFromOpenAI_generationConfig)
next
  fix nativeRequest m p
  assume "Contains m ''gemini-2.5-flash-image''"
    and "BuildGeminiPayloadFromNative cfg nativeRequest m = Inr p"
  then show "thinkingConfigOf (requestOf p) = thinkingConfigOf nativeRequest"
    by (simp add: BuildGeminiPayloadFromNative_thinkingConfig)
next
  fix req p
  assume img: "\<not> Contains (reqModel req) ''gemini-2.5-flash-image''"
    and tv: "thinkingVariant25 (reqModel req)"
    and ok: "OpenAIRequestToGemini req = Inr p"
  have "addThinkingConfig (reqModel req) (buildGenerationConfig req) = Inr (generationConfigOf p)"
    using ok by (rule OpenAIRequestToGemini_generationConfig)
  then have "generationConfigOf p =
      AList.update ''thinkingConfig''
         (GMap [(''thinkingBudget'', GInt (GetThinkingBudget (reqModel req))),
                (''includeThoughts'', GBool (ShouldIncludeThoughts (reqModel req)))])
         (AList.update ''thinkingConfig'' (GMap []) (buildGenerationConfig req))"
    using img thinkingVariant25_budget [OF tv]
    by (simp add: addThinkingConfig_fresh [OF buildGenerationConfig_no_thinkingConfig])
  then show "map_of (generationConfigOf p) ''thinkingConfig''
             = Some (GMap [(''thinkingBudget'', GInt (GetThinkingBudget (reqModel req))),
                           (''includeThoughts'', GBool (ShouldIncludeThoughts (reqModel req)))])"
    by (simp only: map_of_update_same)
  show "generationConfigOf (requestOf (BuildGeminiPayloadFromOpenAI cfg p)) = generationConfigOf p"
    using ok by (rule BuildGeminiPayloadFromOpenAI_generationConfig)
next
  fix nativeRequest m p
  assume img: "\<not> Contains m ''gemini-2.5-flash-image''"
    and tv: "thinkingVariant25 m"
    and ok: "BuildGeminiPayloadFromNative cfg nativeRequest m = Inr p"
  have tc: "thinkingConfigOf (requestOf p) = nativeThinking m (thinkingConfigOf nativeRequest)"
    using img ok by (simp add: BuildGeminiPayloadFromNative_thinkingConfig)
  show "map_of (thinkingConfigOf (requestOf p)) ''thinkingBudget'' = Some (GInt (GetThinkingBudget m))"
    unfolding tc using thinkingVariant25_budget [OF tv] by (rule nativeThinking_budget)
  show "map_of (thinkingConfigOf (requestOf p)) ''includeThoughts'' = Some (GBool (ShouldIncludeThoughts m))"
    unfolding tc by (rule nativeThinking_includeThoughts)
next
  fix m assume "thinkingVariant25 m"
  then show "GetThinkingBudget m \<in> {0, 128, 24576, 32768}"
    by (auto simp: thinkingVariant25_def GetThinkingBudget_def Let_def IsNothinkingModel_def
      IsMaxthinkingModel_def)
qed

text \<open>
  C4 at the image model and at a thinking variant, on each path.
\<close>

theorem C4_thinking_configuration_witness:
  "(case OpenAIRequestToGemini (plainRequest ''gemini-2.5-flash-image-preview'') of
      Inr p \<Rightarrow> map_of (generationConfigOf p) ''thinkingConfig'' = None
    | Inl e \<Rightarrow> False)
   \<and> (case OpenAIRequestToGemini (plainRequest ''gemini-2.5-pro-nothinking'') of
      Inr p \<Rightarrow> map_of (generationConfigOf p) ''thinkingConfig''
                 = Some (GMap [(''thinkingBudget'', GInt 128), (''includeThoughts'', GBool True)])
    | Inl e \<Rightarrow> False)
   \<and> (case BuildGeminiPayloadFromNative defaultConfig [] ''gemini-2.5-flash-maxthinking'' of
      Inr p \<Rightarrow> map_of (thinkingConfigOf (requestOf p)) ''thinkingBudget'' = Some (GInt 24576)
                \<and> map_of (thinkingConfigOf (requestOf p)) ''includeThoughts'' = Some (GBool True)
    | Inl e \<Rightarrow> False)
   \<and> (case BuildGeminiPayloadFromNative defaultConfig [] ''gemini-2.5-flash-image-preview'' of
      Inr p \<Rightarrow> thinkingConfigOf (requestOf p) = []
    | Inl e \<Rightarrow> False)"
proof -
  note inst = C4_thinking_configuration [of defaultConfig]
  have img: "Contains ''gemini-2.5-flash-image-preview'' ''gemini-2.5-flash-image''" by code_simp
  have "\<not> isl (OpenAIRequestToGemini (plainRequest ''gemini-2.5-flash-image-preview''))"
    by code_simp
  then obtain p1 where p1: "OpenAIRequestToGemini (plainRequest ''gemini-2.5-flash-image-preview'') = Inr p1"
    by (cases "OpenAIRequestToGemini (plainRequest ''gemini-2.5-flash-image-preview'')") auto
  have m1: "reqModel (plainRequest ''gemini-2.5-flash-image-preview'') = ''gemini-2.5-flash-image-preview''"
    by (simp add: plainRequest_def)
  from inst have c1: "\<forall>req p. Contains (reqModel req) ''gemini-2.5-flash-image'' \<and> OpenAIRequestToGemini req = Inr p
       \<longrightarrow> map_of (generationConfigOf p) ''thinkingConfig'' = None
           \<and> generationConfigOf (requestOf (BuildGeminiPayloadFromOpenAI defaultConfig p)) = generationConfigOf p"
    by (elim conjE)
  have r1: "map_of (generationConfigOf p1) ''thinkingConfig'' = None"
    using c1 [rule_format, of "plainRequest ''gemini-2.5-flash-image-preview''" p1] img p1
    by (simp add: m1)
  have nimg: "\<not> Contains ''gemini-2.5-pro-nothinking'' ''gemini-2.5-flash-image''" by code_simp
  have tv: "thinkingVariant25 ''gemini-2.5-pro-nothinking''" by code_simp
  have b: "GetThinkingBudget ''gemini-2.5-pro-nothinking'' = 128" by code_simp
  have i: "ShouldIncludeThoughts ''gemini-2.5-pro-nothinking'' = True" by code_simp
  have "\<not> isl (OpenAIRequestToGemini (plainRequest ''gemini-2.5-pro-nothinking''))"
    by code_simp
  then obtain p2 where p2: "OpenAIRequestToGemini (plainRequest ''gemini-2.5-pro-nothinking'') = Inr p2"
    by (cases "OpenAIRequestToGemini (plainRequest ''gemini-2.5-pro-nothinking'')") auto
  have m2: "reqModel (plainRequest ''gemini-2.5-pro-nothinking'') = ''gemini-2.5-pro-nothinking''"
    by (simp add: plainRequest_def)
  from inst have c3: "\<forall>req p. \<not> Contains (reqModel req) ''gemini-2.5-flash-image'' \<and> thinkingVariant25 (reqModel req)
           \<and> OpenAIRequestToGemini req = Inr p
       \<longrightarrow> map_of (generationConfigOf p) ''thinkingConfig''
             = Some (GMap [(''thinkingBudget'', GInt (GetThinkingBudget (reqModel req))),
                           (''includeThoughts'', GBool (ShouldIncludeThoughts (reqModel req)))])
           \<and> generationConfigOf (requestOf (BuildGeminiPayloadFromOpenAI defaultConfig p)) = generationConfigOf p"
    by (elim conjE)
  have r2: "map_of (generationConfigOf p2) ''thinkingConfig''
                 = Some (GMap [(''thinkingBudget'', GInt 128), (''includeThoughts'', GBool True)])"
    using c3 [rule_format, of "plainRequest ''gemini-2.5-pro-nothinking''" p2] nimg tv p2
    by (simp add: m2 b i)
  have nimg3: "\<not> Contains ''gemini-2.5-flash-maxthinking'' ''gemini-2.5-flash-image''" by code_simp
  have tv3: "thinkingVariant25 ''gemini-2.5-flash-maxthinking''" by code_simp
  have b3: "GetThinkingBudget ''gemini-2.5-flash-maxthinking'' = 24576" by code_simp
  have i3: "ShouldIncludeThoughts ''gemini-2.5-flash-maxthinking'' = True" by code_simp
  have "\<not> isl (BuildGeminiPayloadFromNative defaultConfig [] ''gemini-2.5-flash-maxthinking'')"
    by code_simp
  then obtain p3 where p3: "BuildGeminiPayloadFromNative defaultConfig [] ''gemini-2.5-flash-maxthinking'' = Inr p3"
    by (cases "BuildGeminiPayloadFromNative defaultConfig [] ''gemini-2.5-flash-maxthinking''") auto
  from inst have c4: "\<forall>nativeRequest m p.
         \<not> Contains m ''gemini-2.5-flash-image'' \<and> thinkingVariant25 m
           \<and> BuildGeminiPayloadFromNative defaultConfig nativeRequest m = Inr p
       \<longrightarrow> map_of (thinkingConfigOf (requestOf p)) ''thinkingBudget'' = Some (GInt (GetThinkingBudget m))
           \<and> map_of (thinkingConfigOf (requestOf p)) ''includeThoughts''
               = Some (GBool (ShouldIncludeThoughts m))"
    by (elim conjE)
  have r3: "map_of (thinkingConfigOf (requestOf p3)) ''thinkingBudget'' = Some (GInt 24576)
                \<and> map_of (thinkingConfigOf (requestOf p3)) ''includeThoughts'' = Some (GBool True)"
    using c4 [rule_format, of "''gemini-2.5-flash-maxthinking''" "[]" p3] nimg3 tv3 p3
    by (simp add: b3 i3)
  have "\<not> isl (BuildGeminiPayloadFromNative defaultConfig [] ''gemini-2.5-flash-image-preview'')"
    by code_simp
  then obtain p4 where p4: "BuildGeminiPayloadFromNative defaultConfig [] ''gemini-2.5-flash-image-preview'' = Inr p4"
    by (cases "BuildGeminiPayloadFromNative defaultConfig [] ''gemini-2.5-flash-image-preview''") auto
  from inst have c2: "\<forall>nativeRequest m p.
         Contains m ''gemini-2.5-flash-image'' \<and> BuildGeminiPayloadFromNative defaultConfig nativeRequest m = Inr p
       \<longrightarrow> thinkingConfigOf (requestOf p) = thinkingConfigOf nativeRequest"
    by (elim conjE)
  have r4: "thinkingConfigOf (requestOf p4) = []"
    using c2 [rule_format, of "''gemini-2.5-flash-image-preview''" "[]" p4] img p4
    by (simp add: thinkingConfigOf_def generationConfigOf_def objectAt_def)
  from r1 r2 r3 r4 show ?thesis by (simp add: p1 p2 p3 p4)
qed

text \<open>
  C4, the claim as stated fails: \<open>gemini-1.5-pro-nothinking\<close> is not the image model and
  carries the suffix \<open>-nothinking\<close>, but its budget is -1 (its base name is of neither
  2.5 family), so the OpenAI path sets neither \<open>thinkingBudget\<close> nor \<open>includeThoughts\<close>:
  the generation config is empty.
\<close>

theorem C4_thinking_suffix_counterexample:
  "HasSuffix ''gemini-1.5-pro-nothinking'' ''-nothinking''
   \<and> \<not> Contains ''gemini-1.5-pro-nothinking'' ''gemini-2.5-flash-image''
   \<and> (case OpenAIRequestToGemini (plainRequest ''gemini-1.5-pro-nothinking'') of
        Inr p \<Rightarrow> generationConfigOf p = []
      | Inl e \<Rightarrow> False)"
  by code_simp

text \<open>
  On the native path the object \<open>thinkingConfig\<close> is created before the test for the
  image model: for the image model and a request without one, the built request carries
  an empty \<open>thinkingConfig\<close>.
\<close>

lemma BuildGeminiPayloadFromNative_image_model:
  "(case BuildGeminiPayloadFromNative defaultConfig [] ''gemini-2.5-flash-image-preview'' of
      Inr p \<Rightarrow> generationConfigOf (requestOf p) = [(''thinkingConfig'', GMap [])]
    | Inl e \<Rightarrow> False)"
  by code_simp

section \<open>Properties of the content decomposition\<close>

lemma matchLoop_prefix:
  "matchLoop text ms parts lastIdx =
     (parts @ fst (matchLoop text ms [] lastIdx), snd (matchLoop text ms [] lastIdx))"
proof (induction ms arbitrary: parts lastIdx)
  case Nil
  show ?case by simp
next
  case (Cons m ms)
  obtain m0 m1 m2 m3 where m: "m = (m0, m1, m2, m3)" by (cases m) auto
  show ?case
    unfolding m matchLoop.simps
    by (subst Cons.IH, subst (2 3) Cons.IH) simp
qed

lemma matchLoop_append:
  "matchLoop text (ms1 @ ms2) parts lastIdx =
     matchLoop text ms2 (fst (matchLoop text ms1 parts lastIdx)) (snd (matchLoop text ms1 parts lastIdx))"
  by (induction ms1 arbitrary: parts lastIdx) auto

lemma matchLoop_nonempty: "ms \<noteq> [] \<Longrightarrow> fst (matchLoop text ms parts lastIdx) \<noteq> []"
proof (cases ms)
  case Nil
  then show "ms \<noteq> [] \<Longrightarrow> ?thesis" by simp
next
  case (Cons m ms')
  obtain m0 m1 m2 m3 where m: "m = (m0, m1, m2, m3)" by (cases m) auto
  show ?thesis
    unfolding Cons m matchLoop.simps
    by (subst matchLoop_prefix) simp
qed

lemma processTextContent_nonempty: "processTextContent text \<noteq> []"
  by (auto simp: processTextContent_def Let_def split: prod.splits)

lemma processArrayContent_nonempty: "processArrayContent xs \<noteq> []"
  by (simp add: processArrayContent_def Let_def)

lemma arrayItemParts_unrecognized:
  assumes "\<not> recognizedEntry item"
  shows "arrayItemParts item = []"
proof (cases item)
  case (GMap partMap)
  show ?thesis
  proof (cases "map_of partMap ''type''")
    case None
    then show ?thesis by (simp add: arrayItemParts_def GMap)
  next
    case (Some v)
    show ?thesis
    proof (cases v)
      case (GString partType)
      with assms GMap Some have "partType \<noteq> ''text''" and "partType \<noteq> ''image_url''"
        by (auto simp: recognizedEntry_def)
      then show ?thesis by (simp add: arrayItemParts_def GMap Some GString)
    qed (simp_all add: arrayItemParts_def GMap Some)
  qed
qed (simp_all add: arrayItemParts_def)

lemma processArrayContent_unrecognized:
  assumes "\<forall>item \<in> set xs. \<not> recognizedEntry item"
  shows "processArrayContent xs = [textPart []]"
proof -
  have "concat (map arrayItemParts xs) = []"
    using assms by (simp add: arrayItemParts_unrecognized)
  then show ?thesis by (simp add: processArrayContent_def)
qed

lemma processTextContent_empty: "processTextContent [] = [textPart []]"
  by (simp add: processTextContent_def)

text \<open>
  C10.  A string and an array are accepted, and the list of parts built for either is
  never empty; the empty string yields exactly one text part with the empty string, and
  so does an array none of whose entries is an object of type \<open>text\<close> or \<open>image_url\<close>.
\<close>

theorem C10_parts_never_empty:
  "(\<forall>s. \<exists>parts. processContent (GString s) = Inr parts \<and> parts \<noteq> [])
   \<and> (\<forall>xs. \<exists>parts. processContent (GSlice xs) = Inr parts \<and> parts \<noteq> [])
   \<and> (\<forall>content parts. processContent content = Inr parts \<longrightarrow> parts \<noteq> [])
   \<and> processContent (GString []) = Inr [textPart []]
   \<and> (\<forall>xs. (\<forall>item \<in> set xs. \<not> recognizedEntry item)
          \<longrightarrow> processContent (GSlice xs) = Inr [textPart []])"
proof (intro conjI allI impI)
  fix s show "\<exists>parts. processContent (GString s) = Inr parts \<and> parts \<noteq> []"
    by (simp add: processContent_def processTextContent_nonempty)
next
  fix xs show "\<exists>parts. processContent (GSlice xs) = Inr parts \<and> parts \<noteq> []"
    by (simp add: processContent_def processArrayContent_nonempty)
next
  fix content parts assume "processContent content = Inr parts"
  then show "parts \<noteq> []"
    by (cases content)
       (auto simp: processContent_def processTextContent_nonempty processArrayContent_nonempty)
next
  show "processContent (GString []) = Inr [textPart []]"
    by (simp add: processContent_def processTextContent_empty)
next
  fix xs assume "\<forall>item \<in> set xs. \<not> recognizedEntry item"
  then show "processContent (GSlice xs) = Inr [textPart []]"
    by (simp add: processContent_def processArrayContent_unrecognized)
qed

text \<open>C10 at arrays without a recognised entry, and at a string.\<close>

theorem C10_parts_never_empty_witness:
  "processContent (GSlice [GString ''hi'', GMap [(''type'', GString ''audio'')], GNil])
     = Inr [textPart []]
   \<and> processContent (GSlice []) = Inr [textPart []]
   \<and> (\<exists>parts. processContent (GString ''hi'') = Inr parts \<and> parts \<noteq> [])"
proof -
  have "\<forall>item \<in> set [GString ''hi'', GMap [(''type'', GString ''audio'')], GNil]. \<not> recognizedEntry item"
    by (simp add: recognizedEntry_def)
  moreover have "\<forall>item \<in> set ([] :: goval list). \<not> recognizedEntry item"
    by simp
  ultimately show ?thesis
    using C10_parts_never_empty by blast
qed

subsection \<open>Image references\<close>

lemma ordered_mono: "a \<le> b \<Longrightarrow> ordered b ms \<Longrightarrow> ordered a ms"
  by (cases ms) auto

lemma findAllFrom_ordered: "ordered i (findAllFrom s i)"
proof (induction s i rule: findAllFrom.induct)
  case (1 s i)
  show ?case
  proof (cases "length s \<le> i")
    case True
    then show ?thesis by (subst findAllFrom.simps) simp
  next
    case False
    show ?thesis
    proof (cases "matchAt (drop i s)")
      case None
      with False 1(1) have "ordered (Suc i) (findAllFrom s (Suc i))" by simp
      then have "ordered i (findAllFrom s (Suc i))" by (rule ordered_mono [rotated]) simp
      with False None show ?thesis by (subst findAllFrom.simps) simp
    next
      case (Some r)
      obtain n g0 g1 where r: "r = (n, g0, g1)" by (cases r) auto
      with False Some 1(2) have "ordered (i + n) (findAllFrom s (i + n))" by simp
      with False Some r show ?thesis by (subst findAllFrom.simps) simp
    qed
  qed
qed

lemma processImageURL_not_data: "\<not> HasPrefix url ''data:'' \<Longrightarrow> processImageURL url = None"
  by (simp add: processImageURL_def)

lemma matchPart_not_data:
  "notDataURI text m \<Longrightarrow> matchPart text m = textPart (matchedText text m)"
  by (cases m) (simp add: notDataURI_def matchPart_def matchedText_def processImageURL_not_data)

lemma slice_append:
  "a \<le> b \<Longrightarrow> b \<le> c \<Longrightarrow> slice text a b @ slice text b c = slice text a c"
proof -
  assume ab: "a \<le> b" and bc: "b \<le> c"
  have "take (b - a) (drop a text) @ take (c - b) (drop (b - a) (drop a text))
          = take ((b - a) + (c - b)) (drop a text)"
    by (simp add: take_add)
  then show ?thesis using ab bc by (simp add: slice_def)
qed

text \<open>When no match is a data URI, the loop emits text parts that spell the text
  from \<open>lastIdx\<close> to the end of the last match.\<close>

lemma matchLoop_text:
  assumes "ordered lastIdx ms" and "\<forall>m \<in> set ms. notDataURI text m"
  shows "\<exists>segs. fst (matchLoop text ms [] lastIdx) = map textPart segs
           \<and> concat segs = slice text lastIdx (snd (matchLoop text ms [] lastIdx))
           \<and> lastIdx \<le> snd (matchLoop text ms [] lastIdx)"
  using assms
proof (induction ms arbitrary: lastIdx)
  case Nil
  show ?case by (simp add: slice_def)
next
  case (Cons m ms)
  obtain m0 m1 m2 m3 where m: "m = (m0, m1, m2, m3)" by (cases m) auto
  from Cons.prems m have le: "lastIdx \<le> m0" "m0 \<le> m1" and ord: "ordered m1 ms"
    and nd: "notDataURI text (m0, m1, m2, m3)" and rest: "\<forall>m \<in> set ms. notDataURI text m"
    by auto
  from Cons.IH [OF ord rest] obtain segs where
    segs: "fst (matchLoop text ms [] m1) = map textPart segs"
      "concat segs = slice text m1 (snd (matchLoop text ms [] m1))"
      "m1 \<le> snd (matchLoop text ms [] m1)"
    by blast
  let ?gap = "if lastIdx < m0 \<and> slice text lastIdx m0 \<noteq> [] then [slice text lastIdx m0] else []"
  have gap: "textBefore text lastIdx m0 = map textPart ?gap" "concat ?gap = slice text lastIdx m0"
    using le by (auto simp: textBefore_def slice_def)
  have mp: "matchPart text (m0, m1, m2, m3) = textPart (slice text m0 m1)"
    using matchPart_not_data [OF nd] by (simp add: matchedText_def)
  have loop: "matchLoop text (m # ms) [] lastIdx =
          (map textPart (?gap @ [slice text m0 m1] @ segs), snd (matchLoop text ms [] m1))"
    unfolding m matchLoop.simps
    by (subst matchLoop_prefix) (simp add: gap(1) mp segs(1) del: map_append)
  have "concat (?gap @ [slice text m0 m1] @ segs)
          = slice text lastIdx m0 @ slice text m0 m1 @ slice text m1 (snd (matchLoop text ms [] m1))"
    using gap(2) segs(2) by simp
  also have "\<dots> = slice text lastIdx (snd (matchLoop text ms [] m1))"
    using le segs(3) by (simp add: slice_append)
  finally have "concat (?gap @ [slice text m0 m1] @ segs)
          = slice text lastIdx (snd (matchLoop text ms [] m1))" .
  moreover have "lastIdx \<le> snd (matchLoop text ms [] m1)"
    using le segs(3) by simp
  ultimately show ?case
    unfolding loop fst_conv snd_conv by blast
qed

lemma processTextContent_matches:
  assumes "FindAllStringSubmatchIndex text \<noteq> []"
  shows "processTextContent text =
           fst (matchLoop text (FindAllStringSubmatchIndex text) [] 0)
           @ textAfter text (snd (matchLoop text (FindAllStringSubmatchIndex text) [] 0))"
proof -
  obtain parts lastIdx where
    loop: "matchLoop text (FindAllStringSubmatchIndex text) [] 0 = (parts, lastIdx)"
    by (cases "matchLoop text (FindAllStringSubmatchIndex text) [] 0") auto
  have "fst (matchLoop text (FindAllStringSubmatchIndex text) [] 0) \<noteq> []"
    using assms by (rule matchLoop_nonempty)
  then have ne: "parts \<noteq> []" by (simp add: loop)
  have "text \<noteq> []"
    using assms by (auto simp: FindAllStringSubmatchIndex_def)
  then show ?thesis
    using assms ne by (simp add: processTextContent_def Let_def loop)
qed

lemma processTextContent_all_text:
  assumes "\<forall>m \<in> set (FindAllStringSubmatchIndex text). notDataURI text m"
  shows "\<exists>segs. processTextContent text = map textPart segs \<and> concat segs = text"
proof (cases "text = [] \<or> FindAllStringSubmatchIndex text = []")
  case True
  then have "processTextContent text = map textPart [text]"
    by (auto simp: processTextContent_def)
  then show ?thesis by (intro exI [of _ "[text]"]) simp
next
  case False
  let ?ms = "FindAllStringSubmatchIndex text"
  let ?last = "snd (matchLoop text ?ms [] 0)"
  have "ordered 0 ?ms"
    unfolding FindAllStringSubmatchIndex_def by (rule findAllFrom_ordered)
  from matchLoop_text [OF this assms] obtain segs where
    segs: "fst (matchLoop text ?ms [] 0) = map textPart segs" "concat segs = slice text 0 ?last"
    by blast
  let ?tail = "if ?last < length text \<and> drop ?last text \<noteq> [] then [drop ?last text] else []"
  have tail: "textAfter text ?last = map textPart ?tail"
    by (simp add: textAfter_def)
  have "processTextContent text = fst (matchLoop text ?ms [] 0) @ textAfter text ?last"
    using False by (intro processTextContent_matches) simp
  then have "processTextContent text = map textPart (segs @ ?tail)"
    by (simp only: segs(1) tail map_append)
  moreover have "concat (segs @ ?tail) = text"
    using segs(2) by (auto simp: slice_def)
  ultimately show ?thesis by blast
qed

text \<open>The part for a match stands after the parts for the matches before it and the
  text in between.\<close>

lemma processTextContent_at_match:
  assumes "FindAllStringSubmatchIndex text = ms1 @ (m0, m1, m2, m3) # ms2"
  shows "\<exists>after. processTextContent text =
           fst (matchLoop text ms1 [] 0) @ textBefore text (snd (matchLoop text ms1 [] 0)) m0
           @ [matchPart text (m0, m1, m2, m3)] @ after"
proof -
  let ?p1 = "fst (matchLoop text ms1 [] 0)" and ?l1 = "snd (matchLoop text ms1 [] 0)"
  let ?here = "?p1 @ textBefore text ?l1 m0 @ [matchPart text (m0, m1, m2, m3)]"
  have "matchLoop text (ms1 @ (m0, m1, m2, m3) # ms2) [] 0 = matchLoop text ms2 ?here m1"
    by (simp add: matchLoop_append)
  also have "\<dots> = (?here @ fst (matchLoop text ms2 [] m1), snd (matchLoop text ms2 [] m1))"
    by (rule matchLoop_prefix)
  finally have loop: "matchLoop text (FindAllStringSubmatchIndex text) [] 0
      = (?here @ fst (matchLoop text ms2 [] m1), snd (matchLoop text ms2 [] m1))"
    by (simp only: assms)
  have "FindAllStringSubmatchIndex text \<noteq> []"
    using assms by simp
  then have "processTextContent text =
           fst (matchLoop text (FindAllStringSubmatchIndex text) [] 0)
           @ textAfter text (snd (matchLoop text (FindAllStringSubmatchIndex text) [] 0))"
    by (rule processTextContent_matches)
  then show ?thesis unfolding loop by simp
qed

text \<open>The pattern finds a reference \<open>![alt](url)\<close> at the start of a string.\<close>

lemma takeWhile_until:
  "x \<notin> set xs \<Longrightarrow> takeWhile (\<lambda>c. c \<noteq> x) (xs @ x # ys) = xs"
  by (induction xs) auto

lemma dropWhile_until:
  "x \<notin> set xs \<Longrightarrow> dropWhile (\<lambda>c. c \<noteq> x) (xs @ x # ys) = x # ys"
  by (induction xs) auto

lemma matchAt_reference:
  assumes "CHR '']'' \<notin> set alt" and "CHR '')'' \<notin> set url" and "url \<noteq> []"
  shows "matchAt (''!['' @ alt @ '']('' @ url @ '')'' @ rest)
           = Some (length alt + length url + 5, length alt + 4, length alt + 4 + length url)"
proof -
  have a: "takeWhile (\<lambda>c. c \<noteq> CHR '']'') (alt @ CHR '']'' # CHR ''('' # url @ CHR '')'' # rest) = alt"
    and b: "dropWhile (\<lambda>c. c \<noteq> CHR '']'') (alt @ CHR '']'' # CHR ''('' # url @ CHR '')'' # rest)
              = CHR '']'' # CHR ''('' # url @ CHR '')'' # rest"
    using assms(1) by (rule takeWhile_until, rule dropWhile_until)
  have c: "takeWhile (\<lambda>c. c \<noteq> CHR '')'') (url @ CHR '')'' # rest) = url"
    and d: "dropWhile (\<lambda>c. c \<noteq> CHR '')'') (url @ CHR '')'' # rest) = CHR '')'' # rest"
    using assms(2) by (rule takeWhile_until, rule dropWhile_until)
  show ?thesis
    using assms(3) by (simp add: matchAt_def Let_def a b c d)
qed

text \<open>
  C6.  The text \<open>A ![x](data:image/png;base64,QQ==) B\<close> yields exactly the three parts
  Text \<open>A \<close>, InlineBinary \<open>image/png\<close> \<open>QQ==\<close>, Text \<open> B\<close>, in this order.  A markdown
  image reference (a match of the pattern) whose URL, cleaned as the code cleans it, does
  not start with \<open>data:\<close> is left in place as literal text: its part is the text part
  of the matched text, and it stands right after the parts for the matches before it
  and the text between them and it; and when no reference of a text is a data URI, the
  parts are all text parts and spell the text.
\<close>

theorem C6_image_extraction:
  "processTextContent ''A ![x](data:image/png;base64,QQ==) B''
     = [textPart ''A '', inlineDataPart ''image/png'' ''QQ=='', textPart '' B'']
   \<and> (\<forall>text ms1 m ms2.
         FindAllStringSubmatchIndex text = ms1 @ m # ms2 \<and> notDataURI text m \<longrightarrow>
         (\<exists>after. processTextContent text =
                    fst (matchLoop text ms1 [] 0)
                    @ textBefore text (snd (matchLoop text ms1 [] 0)) (fst m)
                    @ [textPart (matchedText text m)] @ after))
   \<and> (\<forall>text. (\<forall>m \<in> set (FindAllStringSubmatchIndex text). notDataURI text m) \<longrightarrow>
         (\<exists>segs. processTextContent text = map textPart segs \<and> concat segs = text))"
proof (intro conjI allI impI)
  show "processTextContent ''A ![x](data:image/png;base64,QQ==) B''
     = [textPart ''A '', inlineDataPart ''image/png'' ''QQ=='', textPart '' B'']"
    by code_simp
next
  fix t :: string and ms1 m ms2
  assume h: "FindAllStringSubmatchIndex t = ms1 @ m # ms2 \<and> notDataURI t m"
  obtain m0 m1 m2 m3 where m: "m = (m0, m1, m2, m3)" by (cases m) auto
  from h have "FindAllStringSubmatchIndex t = ms1 @ (m0, m1, m2, m3) # ms2"
    by (simp add: m)
  from processTextContent_at_match [OF this] h
  show "\<exists>after. processTextContent t =
                    fst (matchLoop t ms1 [] 0)
                    @ textBefore t (snd (matchLoop t ms1 [] 0)) (fst m)
                    @ [textPart (matchedText t m)] @ after"
    by (simp add: matchPart_not_data m)
next
  fix t :: string
  assume "\<forall>m \<in> set (FindAllStringSubmatchIndex t). notDataURI t m"
  then show "\<exists>segs. processTextContent t = map textPart segs \<and> concat segs = t"
    by (rule processTextContent_all_text)
qed

text \<open>C6 at a text with one reference to an \<open>http\<close> URL.\<close>

theorem C6_image_extraction_witness:
  "FindAllStringSubmatchIndex ''see ![pic](http://a/b.png) now'' = [(4, 26, 11, 25)]
   \<and> notDataURI ''see ![pic](http://a/b.png) now'' (4, 26, 11, 25)
   \<and> (\<exists>after. processTextContent ''see ![pic](http://a/b.png) now''
                 = [textPart ''see '', textPart ''![pic](http://a/b.png)''] @ after)
   \<and> (\<exists>segs. processTextContent ''see ![pic](http://a/b.png) now'' = map textPart segs
               \<and> concat segs = ''see ![pic](http://a/b.png) now'')"
proof -
  let ?t = "''see ![pic](http://a/b.png) now''"
  have f: "FindAllStringSubmatchIndex ?t = [(4, 26, 11, 25)]" by code_simp
  have nd: "notDataURI ?t (4, 26, 11, 25)" by code_simp
  have tb: "textBefore ?t 0 4 = [textPart ''see '']" by code_simp
  have mt: "matchedText ?t (4, 26, 11, 25) = ''![pic](http://a/b.png)''" by code_simp
  have f': "FindAllStringSubmatchIndex ?t = [] @ (4, 26, 11, 25) # [] \<and> notDataURI ?t (4, 26, 11, 25)"
    using f nd by simp
  from C6_image_extraction have
    "\<forall>text ms1 m ms2.
         FindAllStringSubmatchIndex text = ms1 @ m # ms2 \<and> notDataURI text m \<longrightarrow>
         (\<exists>after. processTextContent text =
                    fst (matchLoop text ms1 [] 0)
                    @ textBefore text (snd (matchLoop text ms1 [] 0)) (fst m)
                    @ [textPart (matchedText text m)] @ after)"
    by (elim conjE)
  from this [rule_format, OF f'] have
    one: "\<exists>after. processTextContent ?t = [textPart ''see '', textPart ''![pic](http://a/b.png)''] @ after"
    by (simp add: tb mt)
  from C6_image_extraction have
    "\<forall>text. (\<forall>m \<in> set (FindAllStringSubmatchIndex text). notDataURI text m) \<longrightarrow>
         (\<exists>segs. processTextContent text = map textPart segs \<and> concat segs = text)"
    by (elim conjE)
  from this [rule_format, of ?t] have
    two: "\<exists>segs. processTextContent ?t = map textPart segs \<and> concat segs = ?t"
    by (simp add: f nd)
  from f nd one two show ?thesis by blast
qed

section \<open>Properties of the streaming relay\<close>

subsection \<open>The lines the scanner delivers\<close>

lemma lineFrame_decodable:
  assumes "\<forall>m. marshal (GMap m) \<noteq> None"
  shows "lineFrame unmarshal marshal line \<noteq> None \<longleftrightarrow> decodableEvent unmarshal line"
proof (cases "decodableEvent unmarshal line")
  case True
  then obtain obj where "parseChunk unmarshal (drop 6 line) = Some obj"
    and "HasPrefix line ''data: ''" "drop 6 line \<noteq> []" "drop 6 line \<noteq> ''[DONE]''"
    by (auto simp: decodableEvent_def)
  moreover have "map_option sseFrame (marshal (GMap m)) \<noteq> None" for m
    using assms by simp
  ultimately have "lineFrame unmarshal marshal line \<noteq> None"
    by (simp add: lineFrame_def Let_def split: option.splits goval.splits)
  with True show ?thesis by simp
next
  case False
  then have "lineFrame unmarshal marshal line = None"
    by (auto simp: lineFrame_def decodableEvent_def Let_def split: option.splits)
  with False show ?thesis by simp
qed

lemma map_filter_as_filter:
  "List.map_filter f xs = map (\<lambda>x. the (f x)) (filter (\<lambda>x. f x \<noteq> None) xs)"
  by (induction xs) (auto simp: List.map_filter_simps split: option.splits)

text \<open>
  Over the lines the scanner delivers before a clean end, the relay sends the frames of
  the decodable events in the order of the lines, one frame per decodable event, and
  nothing for any other line.  \<open>json.Marshal\<close> does not fail on a decoded object, which
  is the hypothesis on \<open>marshal\<close>.
\<close>

lemma relayLines_events:
  assumes "\<forall>m. marshal (GMap m) \<noteq> None"
  shows "relayLines unmarshal marshal lines None
           = map (\<lambda>line. the (lineFrame unmarshal marshal line))
               (filter (decodableEvent unmarshal) lines)"
    and "length (relayLines unmarshal marshal lines None)
           = length (filter (decodableEvent unmarshal) lines)"
proof -
  have eq: "(\<lambda>line. lineFrame unmarshal marshal line \<noteq> None) = decodableEvent unmarshal"
    using lineFrame_decodable [OF assms] by auto
  show one: "relayLines unmarshal marshal lines None
           = map (\<lambda>line. the (lineFrame unmarshal marshal line))
               (filter (decodableEvent unmarshal) lines)"
    unfolding relayLines_def map_filter_as_filter eq by simp
  show "length (relayLines unmarshal marshal lines None)
           = length (filter (decodableEvent unmarshal) lines)"
    unfolding one by simp
qed

text \<open>A read error adds one error frame after the frames of the lines read before it.\<close>

lemma relayLines_read_error:
  "relayLines unmarshal marshal lines (Some err)
     = relayLines unmarshal marshal lines None
       @ (case marshal (streamErrorResponse err) of Some js \<Rightarrow> [sseFrame js] | None \<Rightarrow> [])"
  by (simp add: relayLines_def)

subsection \<open>The scanner\<close>

lemma MaxScanTokenSize_pos: "0 < MaxScanTokenSize"
  by (simp add: MaxScanTokenSize_def)

lemma scanLines_line:
  assumes "CHR 0x0A \<notin> set l" and "length l < MaxScanTokenSize"
  shows "scanLines (l @ CHR 0x0A # rest) = (dropCR l # fst (scanLines rest), snd (scanLines rest))"
proof -
  have tw: "takeWhile (\<lambda>c. c \<noteq> CHR 0x0A) (l @ CHR 0x0A # rest) = l"
    using assms(1) by (rule takeWhile_until)
  have dw: "dropWhile (\<lambda>c. c \<noteq> CHR 0x0A) (l @ CHR 0x0A # rest) = CHR 0x0A # rest"
    using assms(1) by (rule dropWhile_until)
  have ne: "(l @ CHR 0x0A # rest = []) = False"
    by simp
  have mem: "(CHR 0x0A \<in> set (l @ CHR 0x0A # rest)) = True"
    by simp
  have len: "(length l < MaxScanTokenSize) = True"
    using assms(2) by simp
  show ?thesis
    by (subst scanLines.simps) (simp only: ne mem tw dw len if_True if_False list.sel)
qed

lemma scanLines_too_long:
  assumes "CHR 0x0A \<notin> set l" and "MaxScanTokenSize \<le> length l"
  shows "scanLines (l @ rest) = ([], True)"
proof (cases "CHR 0x0A \<in> set rest")
  case True
  then obtain r1 r2 where rest: "rest = r1 @ CHR 0x0A # r2" and r1: "CHR 0x0A \<notin> set r1"
    by (auto dest: split_list_first)
  have "CHR 0x0A \<notin> set (l @ r1)"
    using assms(1) r1 by simp
  then have "takeWhile (\<lambda>c. c \<noteq> CHR 0x0A) ((l @ r1) @ CHR 0x0A # r2) = l @ r1"
    by (rule takeWhile_until)
  then have tw: "takeWhile (\<lambda>c. c \<noteq> CHR 0x0A) (l @ rest) = l @ r1"
    by (simp add: rest)
  have "\<not> length (takeWhile (\<lambda>c. c \<noteq> CHR 0x0A) (l @ rest)) < MaxScanTokenSize"
    unfolding tw using assms(2) by simp
  moreover have "CHR 0x0A \<in> set (l @ rest)" and "l @ rest \<noteq> []"
    using True by auto
  ultimately show ?thesis
    by (subst scanLines.simps) (simp only: if_True if_False simp_thms)
next
  case False
  then have "CHR 0x0A \<notin> set (l @ rest)"
    using assms(1) by simp
  moreover have "\<not> length (l @ rest) < MaxScanTokenSize"
    using assms(2) by simp
  moreover have "l @ rest \<noteq> []"
    using assms(2) MaxScanTokenSize_pos by auto
  ultimately show ?thesis
    by (subst scanLines.simps) (simp only: if_True if_False simp_thms)
qed

text \<open>
  A body of lines that are all shorter than the limit is delivered line by line, and when
  it ends cleanly the relay sends one frame per decodable event, in order.
\<close>

lemma scanLines_short_lines:
  assumes "\<forall>l \<in> set lines. CHR 0x0A \<notin> set l \<and> length l < MaxScanTokenSize"
  shows "scanLines (streamBody lines) = (map dropCR lines, False)"
  using assms
proof (induction lines)
  case Nil
  have "streamBody [] = []"
    by (simp add: streamBody_def)
  then show ?case by (subst scanLines.simps) (simp only: if_True simp_thms list.map)
next
  case (Cons l ls)
  then have IH: "scanLines (streamBody ls) = (map dropCR ls, False)"
    and l: "CHR 0x0A \<notin> set l" "length l < MaxScanTokenSize"
    by simp_all
  have "streamBody (l # ls) = l @ CHR 0x0A # streamBody ls"
    by (simp add: streamBody_def)
  then show ?case
    by (simp only: scanLines_line [OF l] IH fst_conv snd_conv list.map)
qed

lemma StreamResponse_short_lines:
  assumes "\<forall>m. marshal (GMap m) \<noteq> None"
    and "\<forall>l \<in> set lines. CHR 0x0A \<notin> set l \<and> length l < MaxScanTokenSize"
  shows "StreamResponse unmarshal marshal (streamBody lines) None
           = map (\<lambda>line. the (lineFrame unmarshal marshal line))
               (filter (decodableEvent unmarshal) (map dropCR lines))"
  by (simp add: StreamResponse_def scanLines_short_lines [OF assms(2)] relayLines_events(1) [OF assms(1)])

subsection \<open>A line over the limit\<close>

lemma filter_replicate_same: "filter (\<lambda>c. c \<noteq> x) (replicate n x) = []"
  by (induction n) simp_all

lemma longEvent_decodable: "decodableEvent toyUnmarshal longEvent"
  by (simp add: decodableEvent_def longEvent_def HasPrefix_def parseChunk_def toyUnmarshal_def
      filter_replicate_same)

lemma longEvent_no_newline: "CHR 0x0A \<notin> set longEvent"
  by (auto simp: longEvent_def)

lemma longEvent_length: "MaxScanTokenSize \<le> length longEvent"
  by (simp add: longEvent_def)

lemma scanLines_longStream: "scanLines (streamBody longStream) = ([''data: {}''], True)"
proof -
  have body: "streamBody longStream
                = ''data: {}'' @ CHR 0x0A # (longEvent @ (CHR 0x0A # ''data: {}'' @ [CHR 0x0A]))"
    by (simp add: streamBody_def longStream_def)
  have short: "CHR 0x0A \<notin> set ''data: {}''" "length ''data: {}'' < MaxScanTokenSize"
    by (simp_all add: MaxScanTokenSize_def)
  have cr: "dropCR ''data: {}'' = ''data: {}''"
    by (simp add: dropCR_def)
  show ?thesis
    unfolding body
    by (simp only: scanLines_line [OF short] cr fst_conv snd_conv
        scanLines_too_long [OF longEvent_no_newline longEvent_length])
qed

text \<open>
  Whatever \<open>encoding/json\<close> does, that body gives at most two frames: one for its first
  line and the error frame.
\<close>

lemma StreamResponse_longStream_frames:
  "length (StreamResponse unmarshal marshal (streamBody longStream) None) \<le> 2"
  by (simp add: StreamResponse_def scanLines_longStream relayLines_def List.map_filter_def
      split: option.splits)

text \<open>
  C8.  The claim: for every sequence of remote stream lines the relay sends one frame
  per decodable event, in the order of the events, so that the number of frames is the
  number of decodable events.  The code at a stream of three decodable events whose
  second line is longer than the scanner's buffer: the scan stops at that line with
  \<open>ErrTooLong\<close>, so the relay sends the frame of the first event and then one error
  frame; the second and the third event are never sent.
\<close>

theorem C8_long_line_ends_relay:
  "length (filter (decodableEvent toyUnmarshal) longStream) = 3
   \<and> toyMarshal (streamErrorResponse ''bufio.Scanner: token too long'') = Some ''{error}''
   \<and> StreamResponse toyUnmarshal toyMarshal (streamBody longStream) None
       = [sseFrame ''{}'', sseFrame ''{error}'']"
proof (intro conjI)
  have short: "decodableEvent toyUnmarshal ''data: {}''"
    by code_simp
  show "length (filter (decodableEvent toyUnmarshal) longStream) = 3"
    by (simp add: longStream_def short longEvent_decodable)
  show "toyMarshal (streamErrorResponse ''bufio.Scanner: token too long'') = Some ''{error}''"
    by (simp add: toyMarshal_def streamErrorResponse_def)
  have "relayLines toyUnmarshal toyMarshal [''data: {}''] (Some ''bufio.Scanner: token too long'')
          = [sseFrame ''{}'', sseFrame ''{error}'']"
    by code_simp
  then show "StreamResponse toyUnmarshal toyMarshal (streamBody longStream) None
       = [sseFrame ''{}'', sseFrame ''{error}'']"
    by (simp add: StreamResponse_def scanLines_longStream)
qed

text \<open>
  A stream of short lines among keep-alives, a sentinel and undecodable data, read to a
  clean end: the frames are those of its two events.
\<close>

lemma StreamResponse_sampleLines:
  "StreamResponse toyUnmarshal toyMarshal (streamBody sampleLines) None
     = [sseFrame ''{}'', sseFrame ''{}'']"
proof -
  have "\<forall>l \<in> set sampleLines. CHR 0x0A \<notin> set l \<and> length l < MaxScanTokenSize"
    by (simp add: sampleLines_def MaxScanTokenSize_def)
  then have "scanLines (streamBody sampleLines) = (map dropCR sampleLines, False)"
    by (rule scanLines_short_lines)
  moreover have "relayLines toyUnmarshal toyMarshal (map dropCR sampleLines) None
                   = [sseFrame ''{}'', sseFrame ''{}'']"
    by code_simp
  ultimately show ?thesis by (simp add: StreamResponse_def)
qed

section \<open>Properties of the onboarding\<close>

text \<open>
  C9.  When the flag \<open>onboardingDone\<close> is set, \<open>OnboardUser\<close> returns \<open>nil\<close> and leaves
  the whole state as it was: no remote call is added to the calls issued, and the
  tokens, the project, the flags and the files are unchanged.
\<close>

theorem C9_OnboardUser_idempotent:
  "onboardingDone w \<Longrightarrow> OnboardUser e cfg token projectID w = Some (Success, w)"
  by (simp add: OnboardUser_def)

text \<open>C9 at an onboarded process whose remote services cannot be reached.\<close>

theorem C9_OnboardUser_idempotent_witness:
  "onboardingDone onboardedWorld
   \<and> OnboardUser unreachableEnv defaultConfig 0 ''my-project'' onboardedWorld
       = Some (Success, onboardedWorld)"
proof -
  have flag: "onboardingDone onboardedWorld"
    by (simp add: onboardedWorld_def)
  from flag C9_OnboardUser_idempotent [OF flag] show ?thesis by (rule conjI)
qed

text \<open>
  Without the flag the same call does reach for the remote service: it fails at
  \<open>loadCodeAssist\<close>, with that call recorded.
\<close>

lemma OnboardUser_fresh_calls_remote:
  "\<exists>msg w'. OnboardUser unreachableEnv defaultConfig 0 ''my-project'' freshWorld
               = Some (Failure msg, w')
            \<and> length (remoteCalls w') = 1 \<and> \<not> onboardingDone w'"
  by (simp add: OnboardUser_def ensureValid_def loadCodeAssist_def freshWorld_def
      onboardedWorld_def unreachableEnv_def sampleToken_def Valid_def expired_def Let_def)

end
